theory Spec2Isabelle
  imports Main "HOL-Library.Word"
begin

section \<open>The cspc-operator entry point (cmd/cspc-operator/app/start.go)\<close>

text \<open>
  The file has three functions: \<open>Start\<close>, \<open>getClusterConfig\<close> and
  \<open>getSyncInterval\<close>. Everything else they call lives in other packages. Those
  collaborators are parameters of the model (the record \<open>world\<close> holds what each
  call returns), and every call to one of them is written to a trace, in program
  order, so that the order of the calls and the arguments they receive can be stated.
\<close>

subsection \<open>Errors\<close>

text \<open>
  A Go \<open>error\<close> value that is not nil. \<open>Wrap err msg\<close> is what
  \<open>errors.Wrap(err, msg)\<close> returns for a non-nil \<open>err\<close>: a new error with
  the cause \<open>err\<close> and the message \<open>msg\<close>. The nil error is \<open>None\<close> of
  \<open>error option\<close>.
\<close>

datatype error = Error string | Wrap error string

text \<open>
  \<open>errors.Wrapf(err, format)\<close> with no further arguments and a format without
  verbs, as \<open>Start\<close> calls it, builds the same error as \<open>errors.Wrap\<close>.
\<close>

definition Wrapf :: "error \<Rightarrow> string \<Rightarrow> error" where
  "Wrapf err format = Wrap err format"

subsection \<open>strconv.Atoi\<close>

text \<open>
  \<open>strconv.Atoi(s)\<close> is \<open>ParseInt(s, 10, 0)\<close> converted to \<open>int\<close> (its fast
  path for short strings computes the same result). It is part of the Go standard
  library; the model follows the implementation of \<open>ParseInt\<close> and \<open>ParseUint\<close>
  for base 10. A string is a list of bytes. \<open>intSize\<close> is the width of Go's \<open>int\<close> on the
  platform (32 or 64).
\<close>

datatype NumError = ErrSyntax | ErrRange

definition isDigit :: "char \<Rightarrow> bool" where
  "isDigit c = (48 \<le> (of_char c :: nat) \<and> (of_char c :: nat) \<le> 57)"

definition digitVal :: "char \<Rightarrow> nat" where
  "digitVal c = (of_char c :: nat) - 48"

definition maxUint64 :: nat where
  "maxUint64 = 2 ^ 64 - 1"

text \<open>Arithmetic on \<open>uint64\<close> keeps the low 64 bits of the result.\<close>

definition uint64 :: "nat \<Rightarrow> nat" where
  "uint64 x = x mod 2 ^ 64"

text \<open>
  The loop of \<open>ParseUint\<close> for base 10, on \<open>uint64\<close> (the wrap-around is written
  out). In base 10 every byte outside \<open>'0'..'9'\<close> is a syntax error: a letter is a
  digit of value at least 10, the base, and an underscore is only read in base 0.
  \<^verbatim>\<open>
    for _, c := range []byte(s) {
        ... d = c - '0' ... default: return 0, syntaxError(fnParseUint, s0)
        if d >= byte(base) { return 0, syntaxError(fnParseUint, s0) }
        if n >= cutoff { return maxVal, rangeError(fnParseUint, s0) }
        n *= uint64(base)
        n1 := n + uint64(d)
        if n1 < n || n1 > maxVal { return maxVal, rangeError(fnParseUint, s0) }
        n = n1
    }
    return n, nil
  \<close>
\<close>

fun ParseUint_loop :: "nat \<Rightarrow> nat \<Rightarrow> string \<Rightarrow> nat \<times> NumError option" where
  "ParseUint_loop mx n [] = (n, None)"
| "ParseUint_loop mx n (c # cs) =
     (if \<not> isDigit c then (0, Some ErrSyntax)
      else if n \<ge> maxUint64 div 10 + 1 then (mx, Some ErrRange)
      else
        (let n' = uint64 (n * 10);
             n1 = uint64 (n' + digitVal c)
         in if n1 < n' \<or> n1 > mx then (mx, Some ErrRange)
            else ParseUint_loop mx n1 cs))"

text \<open>
  \<open>maxVal := uint64(1)<<uint(bitSize) - 1\<close>, on \<open>uint64\<close>: taking one away
  is adding \<open>2 ^ 64 - 1\<close>.
\<close>

definition maxVal :: "nat \<Rightarrow> nat" where
  "maxVal bitSize = uint64 (uint64 (2 ^ bitSize) + maxUint64)"

text \<open>\<open>ParseUint(s, 10, bitSize)\<close>: the empty string is a syntax error.\<close>

definition ParseUint :: "nat \<Rightarrow> string \<Rightarrow> nat \<times> NumError option" where
  "ParseUint bitSize s =
     (if s = [] then (0, Some ErrSyntax)
      else ParseUint_loop (maxVal bitSize) 0 s)"

text \<open>
  \<open>ParseInt(s, 10, bitSize)\<close> with \<open>bitSize\<close> already resolved to the width of
  \<open>int\<close>: it picks off the sign, converts the rest unsigned and checks the range.
  A range error returns the largest magnitude of the sign.
  \<^verbatim>\<open>
    if s == "" { return 0, syntaxError(fnParseInt, s) }
    s0 := s; neg := false
    if s[0] == '+' { s = s[1:] } else if s[0] == '-' { neg = true; s = s[1:] }
    un, err = ParseUint(s, base, bitSize)
    if err != nil && err.(*NumError).Err != ErrRange { ...; return 0, err }
    cutoff := uint64(1 << uint(bitSize-1))
    if !neg && un >= cutoff { return int64(cutoff - 1), rangeError(fnParseInt, s0) }
    if neg && un > cutoff { return -int64(cutoff), rangeError(fnParseInt, s0) }
    n := int64(un); if neg { n = -n }
    return n, nil
  \<close>
\<close>

definition ParseInt :: "nat \<Rightarrow> string \<Rightarrow> int \<times> NumError option" where
  "ParseInt bitSize s =
     (case s of
        [] \<Rightarrow> (0, Some ErrSyntax)
      | c # cs \<Rightarrow>
          (let neg = (c = CHR ''-'');
               s' = (if c = CHR ''+'' \<or> c = CHR ''-'' then cs else s);
               (un, err) = ParseUint bitSize s'
           in if err \<noteq> None \<and> err \<noteq> Some ErrRange then (0, err)
              else
                (let cutoff = (2::nat) ^ (bitSize - 1)
                 in if \<not> neg \<and> un \<ge> cutoff then (int cutoff - 1, Some ErrRange)
                    else if neg \<and> un > cutoff then (- int cutoff, Some ErrRange)
                    else (if neg then - int un else int un, None))))"

definition Atoi :: "nat \<Rightarrow> string \<Rightarrow> int \<times> NumError option" where
  "Atoi intSize s = ParseInt intSize s"

text \<open>Go's \<open>int\<close> is 32 or 64 bits wide.\<close>

definition validIntSize :: "nat \<Rightarrow> bool" where
  "validIntSize sz = (sz = 32 \<or> sz = 64)"

subsection \<open>time.Duration\<close>

text \<open>
  \<open>time.Duration\<close> is an \<open>int64\<close> count of nanoseconds; its arithmetic wraps
  around. \<open>sint d\<close> reads the count.
\<close>

type_synonym Duration = "64 word"

definition Second :: Duration where
  "Second = 1000000000"

text \<open>\<open>ResyncInterval = 30 * time.Second\<close>, the sync interval of the watcher.\<close>

definition ResyncInterval :: Duration where
  "ResyncInterval = 30 * Second"

subsection \<open>The collaborators and the trace\<close>

text \<open>Handles of the objects the collaborators hand out; the number tells them apart.\<close>

datatype stop_chan = StopCh nat
datatype rest_Config = RestConfig nat
datatype kube_Clientset = KubeClientset nat
datatype openebs_Clientset = OpenEBSClientset nat
datatype ndm_Clientset = NDMClientset nat
datatype kube_InformerFactory = KubeInformerFactory nat
datatype spc_InformerFactory = SPCInformerFactory nat
datatype Controller = Controller nat

text \<open>
  The configuration steps of the controller builder, in the order \<open>Start\<close> chains
  them. The builder belongs to the same package but to another file; each step
  returns the builder, so the builder \<open>Build\<close> sees is the list of steps taken.
\<close>

datatype builder_step =
    withKubeClient kube_Clientset
  | withOpenEBSClient openebs_Clientset
  | withNDMClient ndm_Clientset
  | withCSPCSynced spc_InformerFactory
  | withCSPCLister spc_InformerFactory
  | withRecorder kube_Clientset
  | withEventHandler spc_InformerFactory
  | withWorkqueueRateLimiting

text \<open>
  One event for every call that leaves the file. A \<open>go\<close> statement is the event
  of spawning the goroutine: its operands are evaluated by \<open>Start\<close> at that point
  and the call itself runs later, concurrently; the interleaving of the spawned
  goroutines is not part of the model.
\<close>

datatype event =
    signals_SetupSignalHandler
  | klog_InitFlags
  | flag_Set_call string string
  | flag_Parse
  | clientcmd_BuildConfigFromFlags_call string string
  | klog_V2_Info string
  | rest_InClusterConfig_call
  | kubernetes_NewForConfig_call rest_Config
  | clientset_NewForConfig_call rest_Config
  | ndmclientset_NewForConfig_call rest_Config
  | os_Getenv string
  | klog_Warningf int Duration
  | kubeinformers_NewSharedInformerFactory_call kube_Clientset Duration
  | informers_NewSharedInformerFactory_call openebs_Clientset Duration
  | NewControllerBuilder
  | builder_call builder_step
  | Build_call "builder_step list"
  | go_kubeInformerFactory_Start kube_InformerFactory stop_chan
  | go_spcInformerFactory_Start spc_InformerFactory stop_chan
  | controller_Run_call Controller nat stop_chan

text \<open>
  What the collaborators return. Each of them is taken to return to \<open>Start\<close>, with
  a value of its Go result type; a result \<open>(value, error)\<close> is a sum, \<open>Inl\<close> the
  error. \<open>environ k\<close> is the process environment as the
  \<open>k\<close>-th call of \<open>os.Getenv\<close> finds it (nothing in the file keeps it from
  changing between two calls); \<open>kubeconfig\<close> is the value of the \<open>-kubeconfig\<close>
  flag once \<open>flag.Parse\<close> has run (the empty string by default).
\<close>

record world =
  IntSize :: nat
  SetupSignalHandler :: stop_chan
  flag_Set :: "string \<Rightarrow> string \<Rightarrow> error option"
  kubeconfig :: string
  BuildConfigFromFlags :: "string \<Rightarrow> string \<Rightarrow> error + rest_Config"
  InClusterConfig :: "error + rest_Config"
  kubernetes_NewForConfig :: "rest_Config \<Rightarrow> error + kube_Clientset"
  clientset_NewForConfig :: "rest_Config \<Rightarrow> error + openebs_Clientset"
  ndmclientset_NewForConfig :: "rest_Config \<Rightarrow> error + ndm_Clientset"
  environ :: "nat \<Rightarrow> string \<rightharpoonup> string"
  kubeinformers_NewSharedInformerFactory :: "kube_Clientset \<Rightarrow> Duration \<Rightarrow> kube_InformerFactory"
  informers_NewSharedInformerFactory :: "openebs_Clientset \<Rightarrow> Duration \<Rightarrow> spc_InformerFactory"
  Build :: "builder_step list \<Rightarrow> error + Controller"
  Run :: "Controller \<Rightarrow> nat \<Rightarrow> stop_chan \<Rightarrow> error option"

text \<open>\<open>os.Getenv(key)\<close>: the value of the variable, empty when it is not set.\<close>

definition Getenv :: "(string \<rightharpoonup> string) \<Rightarrow> string \<Rightarrow> string" where
  "Getenv env key = (case env key of None \<Rightarrow> [] | Some v \<Rightarrow> v)"

subsection \<open>getClusterConfig\<close>

text \<open>
  \<^verbatim>\<open>
    func getClusterConfig(kubeconfig string) (*rest.Config, error) {
        if kubeconfig != "" {
            return clientcmd.BuildConfigFromFlags("", kubeconfig)
        }
        klog.V(2).Info("Kubeconfig flag is empty")
        return rest.InClusterConfig()
    }
  \<close>
\<close>

definition getClusterConfig :: "world \<Rightarrow> string \<Rightarrow> event list \<times> (error + rest_Config)" where
  "getClusterConfig w path =
     (if path \<noteq> [] then
        ([clientcmd_BuildConfigFromFlags_call [] path], BuildConfigFromFlags w [] path)
      else
        ([klog_V2_Info ''Kubeconfig flag is empty'', rest_InClusterConfig_call],
         InClusterConfig w))"

subsection \<open>getSyncInterval\<close>

text \<open>
  \<^verbatim>\<open>
    func getSyncInterval() time.Duration {
        resyncInterval, err := strconv.Atoi(os.Getenv("RESYNC_INTERVAL"))
        if err != nil || resyncInterval == 0 {
            klog.Warningf("Incorrect resync interval %q obtained from env, defaulting to %q seconds", resyncInterval, ResyncInterval)
            return ResyncInterval
        }
        return time.Duration(resyncInterval) * time.Second
    }
  \<close>
  The arguments are the width of \<open>int\<close> and the process environment at the time
  of the call. \<open>time.Duration(resyncInterval)\<close> converts the \<open>int\<close> to
  \<open>int64\<close>; the product is an \<open>int64\<close> product.
\<close>

definition getSyncInterval :: "nat \<Rightarrow> (string \<rightharpoonup> string) \<Rightarrow> event list \<times> Duration" where
  "getSyncInterval intSize env =
     (let (resyncInterval, err) = Atoi intSize (Getenv env ''RESYNC_INTERVAL'')
      in if err \<noteq> None \<or> resyncInterval = 0 then
           ([os_Getenv ''RESYNC_INTERVAL'', klog_Warningf resyncInterval ResyncInterval],
            ResyncInterval)
         else
           ([os_Getenv ''RESYNC_INTERVAL''], word_of_int resyncInterval * Second))"

subsection \<open>Start\<close>

text \<open>
  \<open>Start\<close> returns the trace of its calls and its Go return value (\<open>None\<close> is
  the nil error). Each \<open>if err != nil { return errors.Wrap(err, ...) }\<close> is a
  branch that ends the trace there.
\<close>

definition Start :: "world \<Rightarrow> event list \<times> error option" where
  "Start w =
     (let stopCh = SetupSignalHandler w;
          t1 = [signals_SetupSignalHandler, klog_InitFlags,
                flag_Set_call ''logtostderr'' ''true'']
      in case flag_Set w ''logtostderr'' ''true'' of
           Some err \<Rightarrow> (t1, Some (Wrap err ''failed to set logtostderr flag''))
         | None \<Rightarrow>
     (let (tc, r) = getClusterConfig w (kubeconfig w);
          t2 = t1 @ [flag_Parse] @ tc
      in case r of
           Inl err \<Rightarrow> (t2, Some (Wrap err ''error building kubeconfig''))
         | Inr cfg \<Rightarrow>
     (let t3 = t2 @ [kubernetes_NewForConfig_call cfg]
      in case kubernetes_NewForConfig w cfg of
           Inl err \<Rightarrow> (t3, Some (Wrap err ''error building kubernetes clientset''))
         | Inr kubeClient \<Rightarrow>
     (let t4 = t3 @ [clientset_NewForConfig_call cfg]
      in case clientset_NewForConfig w cfg of
           Inl err \<Rightarrow> (t4, Some (Wrap err ''error building openebs clientset''))
         | Inr openebsClient \<Rightarrow>
     (let t5 = t4 @ [ndmclientset_NewForConfig_call cfg]
      in case ndmclientset_NewForConfig w cfg of
           Inl err \<Rightarrow> (t5, Some (Wrap err ''error building ndm clientset''))
         | Inr ndmClient \<Rightarrow>
     (let (ts1, d1) = getSyncInterval (IntSize w) (environ w 0);
          kubeInformerFactory = kubeinformers_NewSharedInformerFactory w kubeClient d1;
          (ts2, d2) = getSyncInterval (IntSize w) (environ w 1);
          spcInformerFactory = informers_NewSharedInformerFactory w openebsClient d2;
          steps = [withKubeClient kubeClient,
                   withOpenEBSClient openebsClient,
                   withNDMClient ndmClient,
                   withCSPCSynced spcInformerFactory,
                   withCSPCLister spcInformerFactory,
                   withRecorder kubeClient,
                   withEventHandler spcInformerFactory,
                   withWorkqueueRateLimiting];
          t6 = t5 @ ts1 @ [kubeinformers_NewSharedInformerFactory_call kubeClient d1]
                  @ ts2 @ [informers_NewSharedInformerFactory_call openebsClient d2]
                  @ [NewControllerBuilder] @ map builder_call steps @ [Build_call steps]
      in case Build w steps of
           Inl err \<Rightarrow> (t6, Some (Wrapf err ''error building controller instance''))
         | Inr controller \<Rightarrow>
             (t6 @ [go_kubeInformerFactory_Start kubeInformerFactory stopCh,
                    go_spcInformerFactory_Start spcInformerFactory stopCh,
                    controller_Run_call controller 2 stopCh],
              Run w controller 2 stopCh)))))))"

subsection \<open>Decimal numerals\<close>

text \<open>
  What it means for a string to denote an integer, independently of the parser: an
  optional sign followed by one or more decimal digits. \<open>decimal s\<close> is the integer
  the string denotes, if it denotes one. This is the reading of "a string parsing to
  the integer N" that \<open>Atoi\<close> is compared with below.
\<close>

fun digitsValue :: "nat \<Rightarrow> string \<Rightarrow> nat" where
  "digitsValue n [] = n"
| "digitsValue n (c # cs) = digitsValue (n * 10 + digitVal c) cs"

definition isDigits :: "string \<Rightarrow> bool" where
  "isDigits s = (s \<noteq> [] \<and> list_all isDigit s)"

definition decimal :: "string \<Rightarrow> int option" where
  "decimal s =
     (case s of
        [] \<Rightarrow> None
      | c # cs \<Rightarrow>
          if c = CHR ''-'' then (if isDigits cs then Some (- int (digitsValue 0 cs)) else None)
          else if c = CHR ''+'' then (if isDigits cs then Some (int (digitsValue 0 cs)) else None)
          else if isDigits s then Some (int (digitsValue 0 s)) else None)"

text \<open>A duration of exactly \<open>N\<close> seconds: the count of nanoseconds is \<open>N * 10^9\<close>.\<close>

definition isSeconds :: "Duration \<Rightarrow> int \<Rightarrow> bool" where
  "isSeconds d N = (sint d = N * 1000000000)"

subsection \<open>Reading traces\<close>

definition isClientConstruction :: "event \<Rightarrow> bool" where
  "isClientConstruction e =
     (case e of
        kubernetes_NewForConfig_call _ \<Rightarrow> True
      | clientset_NewForConfig_call _ \<Rightarrow> True
      | ndmclientset_NewForConfig_call _ \<Rightarrow> True
      | _ \<Rightarrow> False)"

definition isFactoryCreation :: "event \<Rightarrow> bool" where
  "isFactoryCreation e =
     (case e of
        kubeinformers_NewSharedInformerFactory_call _ _ \<Rightarrow> True
      | informers_NewSharedInformerFactory_call _ _ \<Rightarrow> True
      | _ \<Rightarrow> False)"

definition isBuilderCall :: "event \<Rightarrow> bool" where
  "isBuilderCall e =
     (case e of
        NewControllerBuilder \<Rightarrow> True
      | builder_call _ \<Rightarrow> True
      | Build_call _ \<Rightarrow> True
      | _ \<Rightarrow> False)"

definition isFactoryStart :: "event \<Rightarrow> bool" where
  "isFactoryStart e =
     (case e of
        go_kubeInformerFactory_Start _ _ \<Rightarrow> True
      | go_spcInformerFactory_Start _ _ \<Rightarrow> True
      | _ \<Rightarrow> False)"

text \<open>
  The step of the startup sequence a call belongs to, numbered in the order in which
  \<open>Start\<close> is written: flags, cluster configuration, clients, informer factories,
  builder steps, \<open>Build\<close>, starting the factories, \<open>Run\<close>.
\<close>

fun stage :: "event \<Rightarrow> nat" where
  "stage signals_SetupSignalHandler = 0"
| "stage klog_InitFlags = 0"
| "stage (flag_Set_call _ _) = 0"
| "stage flag_Parse = 0"
| "stage (clientcmd_BuildConfigFromFlags_call _ _) = 1"
| "stage (klog_V2_Info _) = 1"
| "stage rest_InClusterConfig_call = 1"
| "stage (kubernetes_NewForConfig_call _) = 2"
| "stage (clientset_NewForConfig_call _) = 2"
| "stage (ndmclientset_NewForConfig_call _) = 2"
| "stage (os_Getenv _) = 3"
| "stage (klog_Warningf _ _) = 3"
| "stage (kubeinformers_NewSharedInformerFactory_call _ _) = 3"
| "stage (informers_NewSharedInformerFactory_call _ _) = 3"
| "stage NewControllerBuilder = 4"
| "stage (builder_call _) = 4"
| "stage (Build_call _) = 5"
| "stage (go_kubeInformerFactory_Start _ _) = 6"
| "stage (go_spcInformerFactory_Start _ _) = 6"
| "stage (controller_Run_call _ _ _) = 7"

subsection \<open>An example run\<close>

text \<open>
  A 64-bit platform on which every collaborator succeeds, \<open>RESYNC_INTERVAL\<close> is
  \<open>45\<close>, the \<open>-kubeconfig\<close> flag is not given and \<open>Run\<close> returns nil once the
  stop signal has fired.
\<close>

definition exampleWorld :: world where
  "exampleWorld =
     \<lparr> IntSize = 64,
       SetupSignalHandler = StopCh 0,
       flag_Set = (\<lambda>name value. None),
       kubeconfig = [],
       BuildConfigFromFlags = (\<lambda>masterUrl path. Inl (Error ''no such file'')),
       InClusterConfig = Inr (RestConfig 0),
       kubernetes_NewForConfig = (\<lambda>cfg. Inr (KubeClientset 0)),
       clientset_NewForConfig = (\<lambda>cfg. Inr (OpenEBSClientset 0)),
       ndmclientset_NewForConfig = (\<lambda>cfg. Inr (NDMClientset 0)),
       environ = (\<lambda>k. [''RESYNC_INTERVAL'' \<mapsto> ''45'']),
       kubeinformers_NewSharedInformerFactory = (\<lambda>client d. KubeInformerFactory 0),
       informers_NewSharedInformerFactory = (\<lambda>client d. SPCInformerFactory 0),
       Build = (\<lambda>steps. Inr (Controller 0)),
       Run = (\<lambda>c workers stopCh. None) \<rparr>"

section \<open>Properties\<close>

subsection \<open>\<open>Atoi\<close> reads decimal numerals\<close>

lemma digitVal_le: "isDigit c \<Longrightarrow> digitVal c \<le> 9"
  unfolding isDigit_def digitVal_def by linarith

lemma uint64_id: "x < 2 ^ 64 \<Longrightarrow> uint64 x = x"
  by (simp add: uint64_def)

lemma maxVal_eq: "bitSize \<le> 64 \<Longrightarrow> maxVal bitSize = 2 ^ bitSize - 1"
proof (cases "bitSize = 64")
  case True
  then show ?thesis by (simp add: maxVal_def uint64_def maxUint64_def)
next
  case False
  assume "bitSize \<le> 64"
  with False have "bitSize < 64" by simp
  then have lt: "(2::nat) ^ bitSize < 2 ^ 64" by (rule power_strict_increasing) simp
  have pos: "(0::nat) < 2 ^ bitSize" by simp
  have "uint64 (2 ^ bitSize + maxUint64) = 2 ^ bitSize - 1"
  proof -
    have e: "2 ^ bitSize + maxUint64 = (2 ^ bitSize - 1) + 1 * 2 ^ 64"
      using pos by (simp add: maxUint64_def)
    have "(2 ^ bitSize - 1 + 1 * 2 ^ 64) mod 2 ^ 64 = (2 ^ bitSize - 1 :: nat) mod 2 ^ 64"
      by (rule mod_mult_self1)
    also have "\<dots> = 2 ^ bitSize - 1" using lt by simp
    finally show ?thesis unfolding uint64_def e .
  qed
  then show ?thesis using lt by (simp add: maxVal_def uint64_id)
qed


lemma digitsValue_mono: "n \<le> digitsValue n cs"
proof (induction cs arbitrary: n)
  case Nil
  show ?case by simp
next
  case (Cons c cs)
  have "n \<le> n * 10 + digitVal c" by simp
  also have "\<dots> \<le> digitsValue (n * 10 + digitVal c) cs" by (rule Cons.IH)
  finally show ?case by simp
qed

lemma ParseUint_loop_value:
  "list_all isDigit cs \<Longrightarrow> digitsValue n cs \<le> m \<Longrightarrow> m \<le> maxUint64 \<Longrightarrow>
   ParseUint_loop m n cs = (digitsValue n cs, None)"
proof (induction cs arbitrary: n)
  case Nil
  show ?case by simp
next
  case (Cons c cs)
  let ?n1 = "n * 10 + digitVal c"
  have d: "isDigit c" and ds: "list_all isDigit cs" using Cons.prems(1) by simp_all
  have le: "?n1 \<le> digitsValue ?n1 cs" by (rule digitsValue_mono)
  have b: "?n1 \<le> m" using le Cons.prems(2) by simp
  have b64: "?n1 < 2 ^ 64" using b Cons.prems(3) by (simp add: maxUint64_def)
  have n10: "n * 10 < 2 ^ 64" using b64 by simp
  have cut: "\<not> n \<ge> maxUint64 div 10 + 1" using n10 by (simp add: maxUint64_def)
  have m1: "uint64 (n * 10) = n * 10" using n10 by (rule uint64_id)
  have m2: "uint64 (n * 10 + digitVal c) = ?n1" using b64 by (rule uint64_id)
  have ih: "ParseUint_loop m ?n1 cs = (digitsValue ?n1 cs, None)"
    using Cons.IH [OF ds _ Cons.prems(3), of ?n1] Cons.prems(2) by simp
  show ?case using d cut b ih by (simp add: m1 m2 Let_def)
qed

lemma ParseUint_loop_range:
  "list_all isDigit cs \<Longrightarrow> m < digitsValue n cs \<Longrightarrow> n \<le> m \<Longrightarrow> m \<le> maxUint64 \<Longrightarrow>
   ParseUint_loop m n cs = (m, Some ErrRange)"
proof (induction cs arbitrary: n)
  case Nil
  then show ?case by simp
next
  case (Cons c cs)
  let ?n1 = "n * 10 + digitVal c"
  have d: "isDigit c" and ds: "list_all isDigit cs" using Cons.prems(1) by simp_all
  show ?case
  proof (cases "n \<ge> maxUint64 div 10 + 1")
    case True
    then show ?thesis using d by simp
  next
    case nocut: False
    then have n10: "n * 10 < 2 ^ 64" by (simp add: maxUint64_def)
    then have m1: "uint64 (n * 10) = n * 10" by (rule uint64_id)
    show ?thesis
    proof (cases "?n1 < 2 ^ 64")
      case True
      then have m2: "uint64 (n * 10 + digitVal c) = ?n1" by (rule uint64_id)
      show ?thesis
      proof (cases "?n1 > m")
        case True
        then show ?thesis using d nocut by (simp add: m1 m2 Let_def)
      next
        case False
        then have "ParseUint_loop m ?n1 cs = (m, Some ErrRange)"
          using Cons.IH [OF ds _ _ Cons.prems(4), of ?n1] Cons.prems(2) by simp
        then show ?thesis using d nocut False
          by (simp add: m1 m2 Let_def)
      qed
    next
      case False
      have d9: "digitVal c \<le> 9" using d by (rule digitVal_le)
      have ge: "(2::nat) ^ 64 \<le> ?n1" using False by simp
      have lt: "?n1 - 2 ^ 64 < 2 ^ 64" using d9 n10 by simp
      have "?n1 mod 2 ^ 64 = (?n1 - 2 ^ 64) mod 2 ^ 64" using ge by (rule le_mod_geq)
      also have "\<dots> = ?n1 - 2 ^ 64" using lt by (rule mod_less)
      finally have "uint64 (n * 10 + digitVal c) = ?n1 - 2 ^ 64"
        unfolding uint64_def .
      moreover have "?n1 - 2 ^ 64 < n * 10" using d9 ge by simp
      ultimately show ?thesis using d nocut
        by (simp add: m1 Let_def)
    qed
  qed
qed


lemma maxVal_le: "bitSize \<le> 64 \<Longrightarrow> maxVal bitSize \<le> maxUint64"
proof -
  assume a: "bitSize \<le> 64"
  then have "(2::nat) ^ bitSize \<le> 2 ^ 64" by (intro power_increasing) simp_all
  then show ?thesis using a by (simp add: maxVal_eq maxUint64_def)
qed

lemma ParseUint_not_digits:
  "\<not> isDigits cs \<Longrightarrow>
   ParseUint sz cs = (0, Some ErrSyntax) \<or> ParseUint sz cs = (maxVal sz, Some ErrRange)"
proof -
  have loop: "\<not> list_all isDigit xs \<Longrightarrow>
        ParseUint_loop m n xs = (0, Some ErrSyntax) \<or> ParseUint_loop m n xs = (m, Some ErrRange)"
    for xs m n
    by (induction xs arbitrary: n) (auto simp: Let_def)
  assume "\<not> isDigits cs"
  then show ?thesis using loop [of cs "maxVal sz" 0]
    by (auto simp: ParseUint_def isDigits_def)
qed

lemma ParseUint_digits_value:
  "isDigits cs \<Longrightarrow> sz \<le> 64 \<Longrightarrow> digitsValue 0 cs \<le> maxVal sz \<Longrightarrow>
   ParseUint sz cs = (digitsValue 0 cs, None)"
  using ParseUint_loop_value [of cs 0 "maxVal sz"] maxVal_le [of sz]
  by (simp add: ParseUint_def isDigits_def)

lemma ParseUint_digits_range:
  "isDigits cs \<Longrightarrow> sz \<le> 64 \<Longrightarrow> maxVal sz < digitsValue 0 cs \<Longrightarrow>
   ParseUint sz cs = (maxVal sz, Some ErrRange)"
  using ParseUint_loop_range [of cs "maxVal sz" 0] maxVal_le [of sz]
  by (simp add: ParseUint_def isDigits_def)

lemma cutoff_maxVal:
  assumes "validIntSize sz"
  shows "maxVal sz = 2 * 2 ^ (sz - 1) - 1" and "(2::nat) ^ (sz - 1) < maxVal sz" and "sz \<le> 64"
proof -
  from assms have sz: "sz = 32 \<or> sz = 64" by (simp add: validIntSize_def)
  then show le: "sz \<le> 64" by auto
  from sz have "(2::nat) ^ sz = 2 * 2 ^ (sz - 1)" by auto
  then show e: "maxVal sz = 2 * 2 ^ (sz - 1) - 1" using le by (simp add: maxVal_eq)
  from sz have "(2::nat) \<le> 2 ^ (sz - 1)" by auto
  then show "(2::nat) ^ (sz - 1) < maxVal sz" unfolding e by simp
qed

text \<open>The unsigned part of \<open>ParseInt\<close>, given what \<open>ParseUint\<close> returned.\<close>

lemma ParseInt_Cons:
  "ParseInt sz (c # cs) =
     (let neg = (c = CHR ''-'');
          (un, err) = ParseUint sz (if c = CHR ''+'' \<or> c = CHR ''-'' then cs else c # cs)
      in if err \<noteq> None \<and> err \<noteq> Some ErrRange then (0, err)
         else if \<not> neg \<and> un \<ge> 2 ^ (sz - 1) then (int (2 ^ (sz - 1)) - 1, Some ErrRange)
         else if neg \<and> un > 2 ^ (sz - 1) then (- int (2 ^ (sz - 1)), Some ErrRange)
         else (if neg then - int un else int un, None))"
  by (auto simp: ParseInt_def Let_def split: prod.splits)

lemma Atoi_not_decimal:
  assumes "validIntSize sz" and "decimal s = None"
  shows "snd (Atoi sz s) \<noteq> None"
proof (cases s)
  case Nil
  then show ?thesis by (simp add: Atoi_def ParseInt_def)
next
  case (Cons c cs)
  let ?s' = "if c = CHR ''+'' \<or> c = CHR ''-'' then cs else c # cs"
  have nd: "\<not> isDigits ?s'" using assms(2) Cons
    by (auto simp: decimal_def split: if_splits)
  note cm = cutoff_maxVal [OF assms(1)]
  from ParseUint_not_digits [OF nd, of sz] show ?thesis
  proof
    assume "ParseUint sz ?s' = (0, Some ErrSyntax)"
    then show ?thesis unfolding Cons Atoi_def ParseInt_Cons by (simp add: Let_def)
  next
    assume "ParseUint sz ?s' = (maxVal sz, Some ErrRange)"
    then show ?thesis using cm(2) unfolding Cons Atoi_def ParseInt_Cons
      by (simp add: Let_def)
  qed
qed

lemma Atoi_decimal:
  assumes "validIntSize sz" and "decimal s = Some v"
  shows "Atoi sz s =
           (if v < - (2 ^ (sz - 1)) then (- (2 ^ (sz - 1)), Some ErrRange)
            else if 2 ^ (sz - 1) \<le> v then (2 ^ (sz - 1) - 1, Some ErrRange)
            else (v, None))"
proof (cases s)
  case Nil
  then show ?thesis using assms(2) by (simp add: decimal_def)
next
  case (Cons c cs)
  let ?s' = "if c = CHR ''+'' \<or> c = CHR ''-'' then cs else c # cs"
  let ?un = "digitsValue 0 ?s'"
  have dg: "isDigits ?s'" using assms(2) Cons
    by (auto simp: decimal_def split: if_splits)
  have v: "v = (if c = CHR ''-'' then - int ?un else int ?un)" using assms(2) Cons
    by (auto simp: decimal_def split: if_splits)
  note cm = cutoff_maxVal [OF assms(1)]
  define K where "K = (2::nat) ^ (sz - 1)"
  have p: "(2::int) ^ (sz - 1) = int K" by (simp add: K_def)
  have q: "(2::nat) ^ (sz - 1) = K" by (simp add: K_def)
  have mK: "maxVal sz = 2 * K - 1" and Km: "K < maxVal sz"
    using cm(1,2) by (simp_all add: K_def)
  have Kpos: "0 < K" by (simp add: K_def)
  show ?thesis
  proof (cases "?un \<le> maxVal sz")
    case True
    have "ParseUint sz ?s' = (?un, None)"
      using dg cm(3) True by (rule ParseUint_digits_value)
    then show ?thesis using Kpos unfolding Cons Atoi_def ParseInt_Cons v p q
      by (auto simp: Let_def)
  next
    case False
    then have big: "maxVal sz < ?un" by simp
    have "ParseUint sz ?s' = (maxVal sz, Some ErrRange)"
      using dg cm(3) big by (rule ParseUint_digits_range)
    then show ?thesis using Km big unfolding Cons Atoi_def ParseInt_Cons v p q
      by (auto simp: Let_def)
  qed
qed

subsection \<open>Durations and \<open>getSyncInterval\<close>\<close>

lemma sint_seconds:
  "sint (word_of_int n * Second :: Duration) = signed_take_bit 63 (n * 1000000000)"
proof -
  have "(word_of_int n * Second :: Duration) = word_of_int (n * 1000000000)"
    by (simp add: Second_def)
  then show ?thesis by (simp only: sint_sbintrunc') simp
qed

lemma isSeconds_iff:
  "isSeconds (word_of_int n * Second) n \<longleftrightarrow> - 9223372036 \<le> n \<and> n \<le> 9223372036"
  unfolding isSeconds_def sint_seconds signed_take_bit_int_eq_self_iff by auto

lemma isSeconds_ResyncInterval: "isSeconds ResyncInterval 30"
  by (simp add: isSeconds_def ResyncInterval_def Second_def)

lemma getSyncInterval_Atoi:
  "getSyncInterval sz env =
     (let s = Getenv env ''RESYNC_INTERVAL''
      in if snd (Atoi sz s) \<noteq> None \<or> fst (Atoi sz s) = 0 then
           ([os_Getenv ''RESYNC_INTERVAL'', klog_Warningf (fst (Atoi sz s)) ResyncInterval],
            ResyncInterval)
         else ([os_Getenv ''RESYNC_INTERVAL''], word_of_int (fst (Atoi sz s)) * Second))"
  by (simp add: getSyncInterval_def Let_def split_beta)

text \<open>
  Outside the bounds of the claims on \<open>getSyncInterval\<close>: a value that fits \<open>int\<close>
  but whose product with \<open>time.Second\<close> does not fit \<open>int64\<close> is not returned as
  that many seconds, and a decimal numeral that does not fit \<open>int\<close> gives the default.
\<close>

lemma getSyncInterval_beyond_bound:
  assumes "validIntSize intSize"
    and "decimal (Getenv env ''RESYNC_INTERVAL'') = Some N"
    and "- (2 ^ (intSize - 1)) \<le> N" and "N < 2 ^ (intSize - 1)"
    and "N < - 9223372036 \<or> 9223372036 < N"
  shows "\<not> isSeconds (snd (getSyncInterval intSize env)) N"
proof -
  have "Atoi intSize (Getenv env ''RESYNC_INTERVAL'') = (N, None)"
    using Atoi_decimal [OF assms(1,2)] assms(3,4) by simp
  moreover have "N \<noteq> 0" using assms(5) by auto
  ultimately have "snd (getSyncInterval intSize env) = word_of_int N * Second"
    by (simp add: getSyncInterval_Atoi)
  then show ?thesis using assms(5) by (auto simp: isSeconds_iff)
qed

lemma getSyncInterval_out_of_range:
  assumes "validIntSize intSize"
    and "decimal (Getenv env ''RESYNC_INTERVAL'') = Some N"
    and "N < - (2 ^ (intSize - 1)) \<or> 2 ^ (intSize - 1) \<le> N"
  shows "\<exists>v. getSyncInterval intSize env =
           ([os_Getenv ''RESYNC_INTERVAL'', klog_Warningf v ResyncInterval], ResyncInterval)"
proof -
  have "snd (Atoi intSize (Getenv env ''RESYNC_INTERVAL'')) = Some ErrRange"
    using Atoi_decimal [OF assms(1,2)] assms(3) by auto
  then show ?thesis by (simp add: getSyncInterval_Atoi)
qed

subsection \<open>The paths through \<open>Start\<close>\<close>

lemma getSyncInterval_trace:
  "e \<in> set (fst (getSyncInterval sz env)) \<Longrightarrow>
   e = os_Getenv ''RESYNC_INTERVAL'' \<or> (\<exists>v. e = klog_Warningf v ResyncInterval)"
  by (auto simp: getSyncInterval_def Let_def split: prod.splits if_splits)

lemma getClusterConfig_trace:
  "e \<in> set (fst (getClusterConfig w path)) \<Longrightarrow>
   e = clientcmd_BuildConfigFromFlags_call [] path \<or>
   e = klog_V2_Info ''Kubeconfig flag is empty'' \<or> e = rest_InClusterConfig_call"
  by (auto simp: getClusterConfig_def split: if_splits)

lemma stage_getSyncInterval:
  "e \<in> set (fst (getSyncInterval sz env)) \<Longrightarrow> stage e = 3"
  by (auto dest: getSyncInterval_trace)

lemma stage_getClusterConfig:
  "e \<in> set (fst (getClusterConfig w path)) \<Longrightarrow> stage e = 1"
  by (auto dest: getClusterConfig_trace)

lemma sorted_getSyncInterval: "sorted (map stage (fst (getSyncInterval sz env)))"
  by (auto simp: getSyncInterval_def Let_def split: prod.splits if_splits)

lemma sorted_getClusterConfig: "sorted (map stage (fst (getClusterConfig w path)))"
  by (auto simp: getClusterConfig_def split: if_splits)

lemma Start_cases:
  fixes w :: world
  defines "t0 \<equiv> [signals_SetupSignalHandler, klog_InitFlags, flag_Set_call ''logtostderr'' ''true'']"
  defines "t1 \<equiv> t0 @ [flag_Parse] @ fst (getClusterConfig w (kubeconfig w))"
  defines "d1 \<equiv> snd (getSyncInterval (IntSize w) (environ w 0))"
  defines "d2 \<equiv> snd (getSyncInterval (IntSize w) (environ w 1))"
  obtains
    (flagSet) err where
      "flag_Set w ''logtostderr'' ''true'' = Some err"
      "Start w = (t0, Some (Wrap err ''failed to set logtostderr flag''))"
  | (clusterConfig) err where
      "flag_Set w ''logtostderr'' ''true'' = None"
      "snd (getClusterConfig w (kubeconfig w)) = Inl err"
      "Start w = (t1, Some (Wrap err ''error building kubeconfig''))"
  | (kubeClient) cfg err where
      "flag_Set w ''logtostderr'' ''true'' = None"
      "snd (getClusterConfig w (kubeconfig w)) = Inr cfg"
      "kubernetes_NewForConfig w cfg = Inl err"
      "Start w = (t1 @ [kubernetes_NewForConfig_call cfg],
                  Some (Wrap err ''error building kubernetes clientset''))"
  | (openebsClient) cfg kc err where
      "flag_Set w ''logtostderr'' ''true'' = None"
      "snd (getClusterConfig w (kubeconfig w)) = Inr cfg"
      "kubernetes_NewForConfig w cfg = Inr kc"
      "clientset_NewForConfig w cfg = Inl err"
      "Start w = (t1 @ [kubernetes_NewForConfig_call cfg, clientset_NewForConfig_call cfg],
                  Some (Wrap err ''error building openebs clientset''))"
  | (ndmClient) cfg kc oc err where
      "flag_Set w ''logtostderr'' ''true'' = None"
      "snd (getClusterConfig w (kubeconfig w)) = Inr cfg"
      "kubernetes_NewForConfig w cfg = Inr kc"
      "clientset_NewForConfig w cfg = Inr oc"
      "ndmclientset_NewForConfig w cfg = Inl err"
      "Start w = (t1 @ [kubernetes_NewForConfig_call cfg, clientset_NewForConfig_call cfg,
                        ndmclientset_NewForConfig_call cfg],
                  Some (Wrap err ''error building ndm clientset''))"
  | (build) cfg kc oc nc kf sf steps err where
      "flag_Set w ''logtostderr'' ''true'' = None"
      "snd (getClusterConfig w (kubeconfig w)) = Inr cfg"
      "kubernetes_NewForConfig w cfg = Inr kc"
      "clientset_NewForConfig w cfg = Inr oc"
      "ndmclientset_NewForConfig w cfg = Inr nc"
      "kf = kubeinformers_NewSharedInformerFactory w kc d1"
      "sf = informers_NewSharedInformerFactory w oc d2"
      "steps = [withKubeClient kc, withOpenEBSClient oc, withNDMClient nc, withCSPCSynced sf,
                withCSPCLister sf, withRecorder kc, withEventHandler sf, withWorkqueueRateLimiting]"
      "Build w steps = Inl err"
      "Start w = (t1 @ [kubernetes_NewForConfig_call cfg, clientset_NewForConfig_call cfg,
                        ndmclientset_NewForConfig_call cfg]
                     @ fst (getSyncInterval (IntSize w) (environ w 0))
                     @ [kubeinformers_NewSharedInformerFactory_call kc d1]
                     @ fst (getSyncInterval (IntSize w) (environ w 1))
                     @ [informers_NewSharedInformerFactory_call oc d2]
                     @ [NewControllerBuilder] @ map builder_call steps @ [Build_call steps],
                  Some (Wrap err ''error building controller instance''))"
  | (run) cfg kc oc nc kf sf steps controller where
      "flag_Set w ''logtostderr'' ''true'' = None"
      "snd (getClusterConfig w (kubeconfig w)) = Inr cfg"
      "kubernetes_NewForConfig w cfg = Inr kc"
      "clientset_NewForConfig w cfg = Inr oc"
      "ndmclientset_NewForConfig w cfg = Inr nc"
      "kf = kubeinformers_NewSharedInformerFactory w kc d1"
      "sf = informers_NewSharedInformerFactory w oc d2"
      "steps = [withKubeClient kc, withOpenEBSClient oc, withNDMClient nc, withCSPCSynced sf,
                withCSPCLister sf, withRecorder kc, withEventHandler sf, withWorkqueueRateLimiting]"
      "Build w steps = Inr controller"
      "Start w = (t1 @ [kubernetes_NewForConfig_call cfg, clientset_NewForConfig_call cfg,
                        ndmclientset_NewForConfig_call cfg]
                     @ fst (getSyncInterval (IntSize w) (environ w 0))
                     @ [kubeinformers_NewSharedInformerFactory_call kc d1]
                     @ fst (getSyncInterval (IntSize w) (environ w 1))
                     @ [informers_NewSharedInformerFactory_call oc d2]
                     @ [NewControllerBuilder] @ map builder_call steps @ [Build_call steps]
                     @ [go_kubeInformerFactory_Start kf (SetupSignalHandler w),
                        go_spcInformerFactory_Start sf (SetupSignalHandler w),
                        controller_Run_call controller 2 (SetupSignalHandler w)],
                  Run w controller 2 (SetupSignalHandler w))"
proof (cases "flag_Set w ''logtostderr'' ''true''")
  case (Some err)
  then show ?thesis using flagSet [of err] by (simp add: Start_def t0_def)
next
  case flag: None
  show ?thesis
  proof (cases "snd (getClusterConfig w (kubeconfig w))")
    case (Inl err)
    then show ?thesis using flag clusterConfig [of err]
      by (simp add: Start_def t0_def t1_def split_beta)
  next
    case cfg: (Inr cfg)
    show ?thesis
    proof (cases "kubernetes_NewForConfig w cfg")
      case (Inl err)
      then show ?thesis using flag cfg kubeClient [of cfg err]
        by (simp add: Start_def t0_def t1_def split_beta)
    next
      case kc: (Inr kc)
      show ?thesis
      proof (cases "clientset_NewForConfig w cfg")
        case (Inl err)
        then show ?thesis using flag cfg kc openebsClient [of cfg kc err]
          by (simp add: Start_def t0_def t1_def split_beta)
      next
        case oc: (Inr oc)
        show ?thesis
        proof (cases "ndmclientset_NewForConfig w cfg")
          case (Inl err)
          then show ?thesis using flag cfg kc oc ndmClient [of cfg kc oc err]
            by (simp add: Start_def t0_def t1_def split_beta)
        next
          case nc: (Inr nc)
          let ?sf = "informers_NewSharedInformerFactory w oc d2"
          let ?steps = "[withKubeClient kc, withOpenEBSClient oc, withNDMClient nc,
                withCSPCSynced ?sf, withCSPCLister ?sf, withRecorder kc, withEventHandler ?sf,
                withWorkqueueRateLimiting]"
          show ?thesis
          proof (cases "Build w ?steps")
            case (Inl err)
            then show ?thesis using flag cfg kc oc nc
                build [of cfg kc oc nc _ ?sf ?steps err, OF _ _ _ _ _ refl refl refl]
              by (simp add: Start_def t0_def t1_def d1_def d2_def split_beta Wrapf_def Let_def)
          next
            case (Inr controller)
            then show ?thesis using flag cfg kc oc nc
                run [of cfg kc oc nc _ ?sf ?steps controller, OF _ _ _ _ _ refl refl refl]
              by (simp add: Start_def t0_def t1_def d1_def d2_def split_beta Wrapf_def Let_def)
          qed
        qed
      qed
    qed
  qed
qed

subsection \<open>The order of the calls\<close>

lemma isFactoryStart_stage: "isFactoryStart e \<longleftrightarrow> stage e = 6"
  by (cases e) (simp_all add: isFactoryStart_def)

lemma isBuilderCall_stage: "isBuilderCall e \<longleftrightarrow> stage e = 4 \<or> stage e = 5"
  by (cases e) (simp_all add: isBuilderCall_def)

lemma isClientConstruction_stage: "isClientConstruction e \<longleftrightarrow> stage e = 2"
  by (cases e) (simp_all add: isClientConstruction_def)

lemma isFactoryCreation_stage: "isFactoryCreation e \<Longrightarrow> stage e = 3"
  by (cases e) (simp_all add: isFactoryCreation_def)

lemma later_stage:
  assumes "sorted (map stage (pre @ e # post))" and "x \<in> set (e # post)"
  shows "stage e \<le> stage x"
  using assms by (auto simp: sorted_append)

lemma earlier_stage:
  assumes "sorted (map stage (pre @ e # post))" and "x \<in> set (pre @ e # post)"
    and "stage x < stage e"
  shows "x \<in> set pre"
  using assms by (auto simp: sorted_append)

lemma Start_stages: "sorted (map stage (fst (Start w)))"
proof -
  have c: "\<forall>e\<in>set (fst (getClusterConfig w (kubeconfig w))). stage e = 1"
    by (simp add: stage_getClusterConfig)
  have g: "\<forall>e\<in>set (fst (getSyncInterval (IntSize w) (environ w n))). stage e = 3" for n
    by (simp add: stage_getSyncInterval)
  note s = sorted_getClusterConfig [of w "kubeconfig w"]
    sorted_getSyncInterval [of "IntSize w" "environ w n" for n]
  show ?thesis
    by (cases w rule: Start_cases) (use c g s in \<open>auto simp: sorted_append\<close>)
qed

lemma notin_getClusterConfig:
  "stage x \<noteq> 1 \<Longrightarrow> x \<notin> set (fst (getClusterConfig w path))"
  by (auto dest: stage_getClusterConfig)

lemma notin_getSyncInterval:
  "stage x \<noteq> 3 \<Longrightarrow> x \<notin> set (fst (getSyncInterval sz env))"
  by (auto dest: stage_getSyncInterval)

section \<open>The claims\<close>

text \<open>Unfolding these evaluates \<open>Atoi\<close> on a string literal.\<close>

lemmas Atoi_eval = Atoi_def ParseInt_def ParseUint_def maxVal_def uint64_def isDigit_def
  digitVal_def maxUint64_def

subsection \<open>The example run, evaluated\<close>

lemma Start_exampleWorld:
  "Start exampleWorld =
     ([signals_SetupSignalHandler, klog_InitFlags, flag_Set_call ''logtostderr'' ''true'',
       flag_Parse, klog_V2_Info ''Kubeconfig flag is empty'', rest_InClusterConfig_call,
       kubernetes_NewForConfig_call (RestConfig 0), clientset_NewForConfig_call (RestConfig 0),
       ndmclientset_NewForConfig_call (RestConfig 0),
       os_Getenv ''RESYNC_INTERVAL'',
       kubeinformers_NewSharedInformerFactory_call (KubeClientset 0) 45000000000,
       os_Getenv ''RESYNC_INTERVAL'',
       informers_NewSharedInformerFactory_call (OpenEBSClientset 0) 45000000000,
       NewControllerBuilder,
       builder_call (withKubeClient (KubeClientset 0)),
       builder_call (withOpenEBSClient (OpenEBSClientset 0)),
       builder_call (withNDMClient (NDMClientset 0)),
       builder_call (withCSPCSynced (SPCInformerFactory 0)),
       builder_call (withCSPCLister (SPCInformerFactory 0)),
       builder_call (withRecorder (KubeClientset 0)),
       builder_call (withEventHandler (SPCInformerFactory 0)),
       builder_call withWorkqueueRateLimiting,
       Build_call [withKubeClient (KubeClientset 0), withOpenEBSClient (OpenEBSClientset 0),
         withNDMClient (NDMClientset 0), withCSPCSynced (SPCInformerFactory 0),
         withCSPCLister (SPCInformerFactory 0), withRecorder (KubeClientset 0),
         withEventHandler (SPCInformerFactory 0), withWorkqueueRateLimiting],
       go_kubeInformerFactory_Start (KubeInformerFactory 0) (StopCh 0),
       go_spcInformerFactory_Start (SPCInformerFactory 0) (StopCh 0),
       controller_Run_call (Controller 0) 2 (StopCh 0)],
      None)"
  by (simp add: Start_def Let_def exampleWorld_def getClusterConfig_def getSyncInterval_def Getenv_def
      Atoi_eval Second_def)

lemma Start_exampleWorld_Build_fails:
  "Start (exampleWorld\<lparr>Build := \<lambda>steps. Inl (Error ''missing dependency'')\<rparr>) =
     ([signals_SetupSignalHandler, klog_InitFlags, flag_Set_call ''logtostderr'' ''true'',
       flag_Parse, klog_V2_Info ''Kubeconfig flag is empty'', rest_InClusterConfig_call,
       kubernetes_NewForConfig_call (RestConfig 0), clientset_NewForConfig_call (RestConfig 0),
       ndmclientset_NewForConfig_call (RestConfig 0),
       os_Getenv ''RESYNC_INTERVAL'',
       kubeinformers_NewSharedInformerFactory_call (KubeClientset 0) 45000000000,
       os_Getenv ''RESYNC_INTERVAL'',
       informers_NewSharedInformerFactory_call (OpenEBSClientset 0) 45000000000,
       NewControllerBuilder,
       builder_call (withKubeClient (KubeClientset 0)),
       builder_call (withOpenEBSClient (OpenEBSClientset 0)),
       builder_call (withNDMClient (NDMClientset 0)),
       builder_call (withCSPCSynced (SPCInformerFactory 0)),
       builder_call (withCSPCLister (SPCInformerFactory 0)),
       builder_call (withRecorder (KubeClientset 0)),
       builder_call (withEventHandler (SPCInformerFactory 0)),
       builder_call withWorkqueueRateLimiting,
       Build_call [withKubeClient (KubeClientset 0), withOpenEBSClient (OpenEBSClientset 0),
         withNDMClient (NDMClientset 0), withCSPCSynced (SPCInformerFactory 0),
         withCSPCLister (SPCInformerFactory 0), withRecorder (KubeClientset 0),
         withEventHandler (SPCInformerFactory 0), withWorkqueueRateLimiting]],
      Some (Wrap (Error ''missing dependency'') ''error building controller instance''))"
  by (simp add: Start_def Let_def exampleWorld_def getClusterConfig_def getSyncInterval_def Getenv_def
      Atoi_eval Second_def Wrapf_def)

subsection \<open>C1: the factories are started after \<open>Build\<close>\<close>

text \<open>
  Claim C1. In every run of \<open>Start\<close>, wherever the trace has the start of an
  informer factory (the \<open>go factory.Start(stopCh)\<close> statements), \<open>Build\<close> was
  called before it and returned a controller, every step of the builder chain was
  called before it (the chain has the \<open>withEventHandler\<close> step, on the very factory
  \<open>spcInformerFactory\<close> that is started), and no call to the builder comes at or
  after it. If \<open>Build\<close> is called and returns an error, \<open>Start\<close> returns that
  error wrapped with "error building controller instance" and the trace has no start
  of a factory.
\<close>

theorem Start_factories_started_after_Build:
  "(\<forall>pre e post. fst (Start w) = pre @ e # post \<and> isFactoryStart e \<longrightarrow>
      (\<exists>steps controller sf.
          Build w steps = Inr controller \<and> Build_call steps \<in> set pre
        \<and> withEventHandler sf \<in> set steps
        \<and> (\<forall>f ch. go_spcInformerFactory_Start f ch \<in> set (fst (Start w)) \<longrightarrow> f = sf)
        \<and> (\<forall>s\<in>set steps. builder_call s \<in> set pre)
        \<and> (\<forall>x\<in>set (e # post). \<not> isBuilderCall x)))
   \<and> (\<forall>steps err. Build_call steps \<in> set (fst (Start w)) \<and> Build w steps = Inl err \<longrightarrow>
        snd (Start w) = Some (Wrap err ''error building controller instance'')
        \<and> (\<forall>x\<in>set (fst (Start w)). \<not> isFactoryStart x))"
proof -
  have p1: "\<exists>steps controller sf.
          Build w steps = Inr controller \<and> Build_call steps \<in> set pre
        \<and> withEventHandler sf \<in> set steps
        \<and> (\<forall>f ch. go_spcInformerFactory_Start f ch \<in> set (fst (Start w)) \<longrightarrow> f = sf)
        \<and> (\<forall>s\<in>set steps. builder_call s \<in> set pre)
        \<and> (\<forall>x\<in>set (e # post). \<not> isBuilderCall x)"
    if split: "fst (Start w) = pre @ e # post" and e: "isFactoryStart e" for pre e post
  proof -
    have e6: "stage e = 6" using e by (simp add: isFactoryStart_stage)
    have srt: "sorted (map stage (pre @ e # post))"
      using Start_stages [of w] by (simp only: split)
    have after: "\<forall>x\<in>set (e # post). \<not> isBuilderCall x"
    proof
      fix x assume "x \<in> set (e # post)"
      with srt have "stage e \<le> stage x" by (rule later_stage)
      then show "\<not> isBuilderCall x" using e6 by (simp add: isBuilderCall_stage)
    qed
    have before: "x \<in> set pre" if "x \<in> set (fst (Start w))" and "stage x < 6" for x
      using srt that e6 by (intro earlier_stage [of pre e post x]) (simp_all add: split)
    have mem: "e \<in> set (fst (Start w))" by (simp add: split)
    have "\<exists>steps controller sf. Build w steps = Inr controller
        \<and> Build_call steps \<in> set (fst (Start w)) \<and> withEventHandler sf \<in> set steps
        \<and> (\<forall>f ch. go_spcInformerFactory_Start f ch \<in> set (fst (Start w)) \<longrightarrow> f = sf)
        \<and> (\<forall>s\<in>set steps. builder_call s \<in> set (fst (Start w)))"
    proof (cases w rule: Start_cases)
      case (run cfg kc oc nc kf sf steps controller)
      show ?thesis
        by (rule exI [of _ steps], rule exI [of _ controller], rule exI [of _ sf])
           (use run in \<open>simp add: notin_getClusterConfig notin_getSyncInterval\<close>)
    qed (use mem e6 in \<open>auto dest: stage_getClusterConfig stage_getSyncInterval\<close>)
    then obtain steps controller sf where b: "Build w steps = Inr controller"
      and bc: "Build_call steps \<in> set (fst (Start w))" and h: "withEventHandler sf \<in> set steps"
      and sf: "\<forall>f ch. go_spcInformerFactory_Start f ch \<in> set (fst (Start w)) \<longrightarrow> f = sf"
      and st: "\<forall>s\<in>set steps. builder_call s \<in> set (fst (Start w))"
      by blast
    have "Build_call steps \<in> set pre" using bc by (rule before) simp
    moreover have "\<forall>s\<in>set steps. builder_call s \<in> set pre"
      using st by (auto intro: before)
    ultimately show ?thesis using b h sf after by blast
  qed
  have p2: "snd (Start w) = Some (Wrap err ''error building controller instance'')
        \<and> (\<forall>x\<in>set (fst (Start w)). \<not> isFactoryStart x)"
    if "Build_call steps \<in> set (fst (Start w))" and "Build w steps = Inl err" for steps err
    using that
    by (cases w rule: Start_cases)
       (auto simp: isFactoryStart_stage dest: stage_getClusterConfig stage_getSyncInterval)
  show ?thesis
  proof (intro conjI allI impI)
    fix pre e post
    assume "fst (Start w) = pre @ e # post \<and> isFactoryStart e"
    then show "\<exists>steps controller sf.
          Build w steps = Inr controller \<and> Build_call steps \<in> set pre
        \<and> withEventHandler sf \<in> set steps
        \<and> (\<forall>f ch. go_spcInformerFactory_Start f ch \<in> set (fst (Start w)) \<longrightarrow> f = sf)
        \<and> (\<forall>s\<in>set steps. builder_call s \<in> set pre)
        \<and> (\<forall>x\<in>set (e # post). \<not> isBuilderCall x)"
      using p1 [of pre e post] by simp
  next
    fix steps err
    assume a: "Build_call steps \<in> set (fst (Start w)) \<and> Build w steps = Inl err"
    show "snd (Start w) = Some (Wrap err ''error building controller instance'')"
      using a p2 [of steps err] by simp
    show "\<forall>x\<in>set (fst (Start w)). \<not> isFactoryStart x"
      using a p2 [of steps err] by simp
  qed
qed


theorem Start_factories_started_after_Build_witness:
  "fst (Start exampleWorld) =
     take 23 (fst (Start exampleWorld)) @ go_kubeInformerFactory_Start (KubeInformerFactory 0) (StopCh 0)
       # [go_spcInformerFactory_Start (SPCInformerFactory 0) (StopCh 0),
          controller_Run_call (Controller 0) 2 (StopCh 0)]
   \<and> isFactoryStart (go_kubeInformerFactory_Start (KubeInformerFactory 0) (StopCh 0))
   \<and> builder_call (withEventHandler (SPCInformerFactory 0)) \<in> set (take 23 (fst (Start exampleWorld)))
   \<and> list_all (\<lambda>x. \<not> isBuilderCall x)
        [go_kubeInformerFactory_Start (KubeInformerFactory 0) (StopCh 0),
         go_spcInformerFactory_Start (SPCInformerFactory 0) (StopCh 0),
         controller_Run_call (Controller 0) 2 (StopCh 0)]
   \<and> Build_call [withKubeClient (KubeClientset 0), withOpenEBSClient (OpenEBSClientset 0),
         withNDMClient (NDMClientset 0), withCSPCSynced (SPCInformerFactory 0),
         withCSPCLister (SPCInformerFactory 0), withRecorder (KubeClientset 0),
         withEventHandler (SPCInformerFactory 0), withWorkqueueRateLimiting]
       \<in> set (fst (Start (exampleWorld\<lparr>Build := \<lambda>steps. Inl (Error ''missing dependency'')\<rparr>)))
   \<and> Build (exampleWorld\<lparr>Build := \<lambda>steps. Inl (Error ''missing dependency'')\<rparr>)
        [withKubeClient (KubeClientset 0), withOpenEBSClient (OpenEBSClientset 0),
         withNDMClient (NDMClientset 0), withCSPCSynced (SPCInformerFactory 0),
         withCSPCLister (SPCInformerFactory 0), withRecorder (KubeClientset 0),
         withEventHandler (SPCInformerFactory 0), withWorkqueueRateLimiting]
       = Inl (Error ''missing dependency'')
   \<and> snd (Start (exampleWorld\<lparr>Build := \<lambda>steps. Inl (Error ''missing dependency'')\<rparr>)) =
       Some (Wrap (Error ''missing dependency'') ''error building controller instance'')
   \<and> list_all (\<lambda>x. \<not> isFactoryStart x)
        (fst (Start (exampleWorld\<lparr>Build := \<lambda>steps. Inl (Error ''missing dependency'')\<rparr>)))"
  using Start_factories_started_after_Build [of exampleWorld]
    Start_factories_started_after_Build
      [of "exampleWorld\<lparr>Build := \<lambda>steps. Inl (Error ''missing dependency'')\<rparr>"]
  by (simp add: Start_exampleWorld Start_exampleWorld_Build_fails isFactoryStart_def
      isBuilderCall_def)

subsection \<open>C2: positive intervals, and the default\<close>

text \<open>
  Claim C2, as amended. On a platform whose \<open>int\<close> is 32 or 64 bits wide: when
  \<open>RESYNC_INTERVAL\<close> is a decimal numeral of a positive integer \<open>N\<close> that fits
  \<open>int\<close> and \<open>N \<le> 9223372036\<close>, \<open>getSyncInterval\<close> returns a duration of
  exactly \<open>N\<close> seconds and logs nothing; when the variable is absent, is not a decimal
  numeral, or denotes zero, it returns exactly the default of 30 seconds and emits a
  warning. The bound is needed: the product \<open>N * time.Second\<close> is computed on
  \<open>int64\<close> nanoseconds and wraps around from \<open>N = 9223372037\<close> on.
\<close>

theorem getSyncInterval_positive_or_default:
  assumes "validIntSize intSize"
  shows "(decimal (Getenv env ''RESYNC_INTERVAL'') = Some N \<and> 0 < N \<and> N < 2 ^ (intSize - 1)
            \<and> N \<le> 9223372036 \<longrightarrow>
          (\<exists>d. getSyncInterval intSize env = ([os_Getenv ''RESYNC_INTERVAL''], d) \<and> isSeconds d N))
       \<and> (env ''RESYNC_INTERVAL'' = None \<or> decimal (Getenv env ''RESYNC_INTERVAL'') = None
            \<or> decimal (Getenv env ''RESYNC_INTERVAL'') = Some 0 \<longrightarrow>
          (\<exists>v. getSyncInterval intSize env =
                 ([os_Getenv ''RESYNC_INTERVAL'', klog_Warningf v ResyncInterval], ResyncInterval))
          \<and> isSeconds ResyncInterval 30)"
proof (intro conjI impI)
  assume h: "decimal (Getenv env ''RESYNC_INTERVAL'') = Some N \<and> 0 < N \<and> N < 2 ^ (intSize - 1)
            \<and> N \<le> 9223372036"
  then have "Atoi intSize (Getenv env ''RESYNC_INTERVAL'') = (N, None)"
    using Atoi_decimal [OF assms, of "Getenv env ''RESYNC_INTERVAL''" N] by simp
  then have "getSyncInterval intSize env = ([os_Getenv ''RESYNC_INTERVAL''], word_of_int N * Second)"
    using h by (simp add: getSyncInterval_Atoi)
  moreover have "isSeconds (word_of_int N * Second) N" using h by (simp add: isSeconds_iff)
  ultimately show "\<exists>d. getSyncInterval intSize env = ([os_Getenv ''RESYNC_INTERVAL''], d) \<and> isSeconds d N"
    by blast
next
  assume h: "env ''RESYNC_INTERVAL'' = None \<or> decimal (Getenv env ''RESYNC_INTERVAL'') = None
            \<or> decimal (Getenv env ''RESYNC_INTERVAL'') = Some 0"
  have "env ''RESYNC_INTERVAL'' = None \<Longrightarrow> decimal (Getenv env ''RESYNC_INTERVAL'') = None"
    by (simp add: Getenv_def decimal_def)
  then have "decimal (Getenv env ''RESYNC_INTERVAL'') = None \<or> decimal (Getenv env ''RESYNC_INTERVAL'') = Some 0"
    using h by auto
  then have "snd (Atoi intSize (Getenv env ''RESYNC_INTERVAL'')) \<noteq> None
      \<or> fst (Atoi intSize (Getenv env ''RESYNC_INTERVAL'')) = 0"
    using Atoi_not_decimal [OF assms, of "Getenv env ''RESYNC_INTERVAL''"]
      Atoi_decimal [OF assms, of "Getenv env ''RESYNC_INTERVAL''" 0] by auto
  then show "\<exists>v. getSyncInterval intSize env =
                 ([os_Getenv ''RESYNC_INTERVAL'', klog_Warningf v ResyncInterval], ResyncInterval)"
    by (auto simp: getSyncInterval_Atoi)
next
  show "isSeconds ResyncInterval 30" by (rule isSeconds_ResyncInterval)
qed

theorem getSyncInterval_positive_or_default_witness:
  "validIntSize 64 \<and> decimal ''45'' = Some 45
   \<and> getSyncInterval 64 [''RESYNC_INTERVAL'' \<mapsto> ''45''] = ([os_Getenv ''RESYNC_INTERVAL''], 45 * Second)
   \<and> isSeconds (45 * Second) 45
   \<and> getSyncInterval 64 Map.empty =
       ([os_Getenv ''RESYNC_INTERVAL'', klog_Warningf 0 ResyncInterval], ResyncInterval)
   \<and> getSyncInterval 64 [''RESYNC_INTERVAL'' \<mapsto> ''thirty''] =
       ([os_Getenv ''RESYNC_INTERVAL'', klog_Warningf 0 ResyncInterval], ResyncInterval)
   \<and> getSyncInterval 64 [''RESYNC_INTERVAL'' \<mapsto> ''0''] =
       ([os_Getenv ''RESYNC_INTERVAL'', klog_Warningf 0 ResyncInterval], ResyncInterval)"
proof -
  have v: "validIntSize 64" by (simp add: validIntSize_def)
  have d: "decimal ''45'' = Some 45" "decimal ''thirty'' = None" "decimal ''0'' = Some 0"
    by (simp_all add: decimal_def isDigits_def isDigit_def digitVal_def)
  show ?thesis
    using v d
      getSyncInterval_positive_or_default [OF v, of "[''RESYNC_INTERVAL'' \<mapsto> ''45'']" 45]
      getSyncInterval_positive_or_default [OF v, of Map.empty 0]
      getSyncInterval_positive_or_default [OF v, of "[''RESYNC_INTERVAL'' \<mapsto> ''thirty'']" 0]
      getSyncInterval_positive_or_default [OF v, of "[''RESYNC_INTERVAL'' \<mapsto> ''0'']" 0]
    by (simp add: getSyncInterval_def Getenv_def Atoi_eval Second_def ResyncInterval_def isSeconds_def)
qed

theorem getSyncInterval_positive_counterexample:
  "decimal ''9223372037'' = Some 9223372037
   \<and> Atoi 64 ''9223372037'' = (9223372037, None)
   \<and> sint (snd (getSyncInterval 64 [''RESYNC_INTERVAL'' \<mapsto> ''9223372037''])) = - 9223372036709551616
   \<and> \<not> isSeconds (snd (getSyncInterval 64 [''RESYNC_INTERVAL'' \<mapsto> ''9223372037''])) 9223372037"
  by (simp add: getSyncInterval_def Getenv_def Atoi_eval Second_def isSeconds_def
      decimal_def isDigits_def)

subsection \<open>C3: \<open>getClusterConfig\<close>\<close>

text \<open>
  Claim C3. For a non-empty kubeconfig path \<open>getClusterConfig\<close> calls
  \<open>clientcmd.BuildConfigFromFlags("", path)\<close> and nothing else, and returns what that
  call returns, so a failure to load or parse the file comes back as the error, and
  \<open>rest.InClusterConfig\<close> is not called. For the empty path it logs a message, calls
  \<open>rest.InClusterConfig\<close> and returns what that returns, a failure included.
\<close>

theorem getClusterConfig_paths:
  "(path \<noteq> [] \<longrightarrow>
      getClusterConfig w path =
        ([clientcmd_BuildConfigFromFlags_call [] path], BuildConfigFromFlags w [] path)
      \<and> rest_InClusterConfig_call \<notin> set (fst (getClusterConfig w path))
      \<and> (\<forall>err. BuildConfigFromFlags w [] path = Inl err \<longrightarrow>
             snd (getClusterConfig w path) = Inl err))
   \<and> (path = [] \<longrightarrow>
      getClusterConfig w path =
        ([klog_V2_Info ''Kubeconfig flag is empty'', rest_InClusterConfig_call],
         InClusterConfig w)
      \<and> (\<forall>err. InClusterConfig w = Inl err \<longrightarrow> snd (getClusterConfig w path) = Inl err))"
  by (simp add: getClusterConfig_def)

theorem getClusterConfig_paths_witness:
  "getClusterConfig exampleWorld ''/no/such/file'' =
     ([clientcmd_BuildConfigFromFlags_call [] ''/no/such/file''], Inl (Error ''no such file''))
   \<and> rest_InClusterConfig_call \<notin> set (fst (getClusterConfig exampleWorld ''/no/such/file''))
   \<and> getClusterConfig (exampleWorld\<lparr>InClusterConfig := Inl (Error ''not in a cluster'')\<rparr>) [] =
     ([klog_V2_Info ''Kubeconfig flag is empty'', rest_InClusterConfig_call],
      Inl (Error ''not in a cluster''))
   \<and> getClusterConfig exampleWorld [] =
     ([klog_V2_Info ''Kubeconfig flag is empty'', rest_InClusterConfig_call], Inr (RestConfig 0))"
  using getClusterConfig_paths [of "''/no/such/file''" exampleWorld]
    getClusterConfig_paths [of "[]" "exampleWorld\<lparr>InClusterConfig := Inl (Error ''not in a cluster'')\<rparr>"]
    getClusterConfig_paths [of "[]" exampleWorld]
  by (simp add: exampleWorld_def)

subsection \<open>C4: a failing \<open>getClusterConfig\<close>\<close>

text \<open>
  Claim C4. \<open>Start\<close> calls \<open>getClusterConfig\<close> once \<open>flag.Set\<close> has returned
  nil. If \<open>getClusterConfig\<close> then returns an error (for instance because the
  kubeconfig path names a file that does not exist), \<open>Start\<close> returns that error
  wrapped with "error building kubeconfig", and none of the three client
  constructors has been called.
\<close>

theorem Start_kubeconfig_error:
  assumes "flag_Set w ''logtostderr'' ''true'' = None"
    and "snd (getClusterConfig w (kubeconfig w)) = Inl err"
  shows "snd (Start w) = Some (Wrap err ''error building kubeconfig'')
         \<and> (\<forall>e\<in>set (fst (Start w)). \<not> isClientConstruction e)"
  using assms
  by (cases w rule: Start_cases)
     (auto simp: isClientConstruction_stage dest: stage_getClusterConfig)

theorem Start_kubeconfig_error_witness:
  "flag_Set (exampleWorld\<lparr>kubeconfig := ''/no/such/file''\<rparr>) ''logtostderr'' ''true'' = None
   \<and> snd (getClusterConfig (exampleWorld\<lparr>kubeconfig := ''/no/such/file''\<rparr>) ''/no/such/file'')
       = Inl (Error ''no such file'')
   \<and> snd (Start (exampleWorld\<lparr>kubeconfig := ''/no/such/file''\<rparr>)) =
       Some (Wrap (Error ''no such file'') ''error building kubeconfig'')
   \<and> list_all (\<lambda>e. \<not> isClientConstruction e)
        (fst (Start (exampleWorld\<lparr>kubeconfig := ''/no/such/file''\<rparr>)))"
proof -
  let ?w = "exampleWorld\<lparr>kubeconfig := ''/no/such/file''\<rparr>"
  have f: "flag_Set ?w ''logtostderr'' ''true'' = None" by (simp add: exampleWorld_def)
  have g: "snd (getClusterConfig ?w (kubeconfig ?w)) = Inl (Error ''no such file'')"
    by (simp add: exampleWorld_def getClusterConfig_def)
  show ?thesis
    using f g Start_kubeconfig_error [OF f g]
    by (simp add: list_all_iff)
qed

subsection \<open>C5: failing client constructions\<close>

text \<open>
  Claim C5. Whenever the construction of the kubernetes, the openebs or the ndm
  clientset is attempted and fails, \<open>Start\<close> returns the error wrapped with a
  message naming that client ("error building kubernetes clientset", "error building
  openebs clientset", "error building ndm clientset"), and no informer factory is
  created. Wherever the trace has the creation of an informer factory, all three
  client constructions came before it and succeeded, and none comes at or after it.
\<close>

theorem Start_client_errors:
  "(\<forall>cfg err. kubernetes_NewForConfig_call cfg \<in> set (fst (Start w))
        \<and> kubernetes_NewForConfig w cfg = Inl err \<longrightarrow>
      snd (Start w) = Some (Wrap err ''error building kubernetes clientset'')
      \<and> (\<forall>e\<in>set (fst (Start w)). \<not> isFactoryCreation e))
   \<and> (\<forall>cfg err. clientset_NewForConfig_call cfg \<in> set (fst (Start w))
        \<and> clientset_NewForConfig w cfg = Inl err \<longrightarrow>
      snd (Start w) = Some (Wrap err ''error building openebs clientset'')
      \<and> (\<forall>e\<in>set (fst (Start w)). \<not> isFactoryCreation e))
   \<and> (\<forall>cfg err. ndmclientset_NewForConfig_call cfg \<in> set (fst (Start w))
        \<and> ndmclientset_NewForConfig w cfg = Inl err \<longrightarrow>
      snd (Start w) = Some (Wrap err ''error building ndm clientset'')
      \<and> (\<forall>e\<in>set (fst (Start w)). \<not> isFactoryCreation e))
   \<and> (\<forall>pre e post. fst (Start w) = pre @ e # post \<and> isFactoryCreation e \<longrightarrow>
        (\<exists>cfg kc oc nc.
            kubernetes_NewForConfig w cfg = Inr kc \<and> clientset_NewForConfig w cfg = Inr oc
          \<and> ndmclientset_NewForConfig w cfg = Inr nc
          \<and> kubernetes_NewForConfig_call cfg \<in> set pre
          \<and> clientset_NewForConfig_call cfg \<in> set pre
          \<and> ndmclientset_NewForConfig_call cfg \<in> set pre
          \<and> (\<forall>x\<in>set (e # post). \<not> isClientConstruction x)))"
proof -
  have k: "snd (Start w) = Some (Wrap err ''error building kubernetes clientset'')
      \<and> (\<forall>e\<in>set (fst (Start w)). \<not> isFactoryCreation e)"
    if "kubernetes_NewForConfig_call cfg \<in> set (fst (Start w))"
      and "kubernetes_NewForConfig w cfg = Inl err" for cfg err
    using that
    by (cases w rule: Start_cases)
       (auto simp: isFactoryCreation_def dest: getClusterConfig_trace getSyncInterval_trace)
  have ob: "snd (Start w) = Some (Wrap err ''error building openebs clientset'')
      \<and> (\<forall>e\<in>set (fst (Start w)). \<not> isFactoryCreation e)"
    if "clientset_NewForConfig_call cfg \<in> set (fst (Start w))"
      and "clientset_NewForConfig w cfg = Inl err" for cfg err
    using that
    by (cases w rule: Start_cases)
       (auto simp: isFactoryCreation_def dest: getClusterConfig_trace getSyncInterval_trace)
  have n: "snd (Start w) = Some (Wrap err ''error building ndm clientset'')
      \<and> (\<forall>e\<in>set (fst (Start w)). \<not> isFactoryCreation e)"
    if "ndmclientset_NewForConfig_call cfg \<in> set (fst (Start w))"
      and "ndmclientset_NewForConfig w cfg = Inl err" for cfg err
    using that
    by (cases w rule: Start_cases)
       (auto simp: isFactoryCreation_def dest: getClusterConfig_trace getSyncInterval_trace)
  have f: "\<exists>cfg kc oc nc.
            kubernetes_NewForConfig w cfg = Inr kc \<and> clientset_NewForConfig w cfg = Inr oc
          \<and> ndmclientset_NewForConfig w cfg = Inr nc
          \<and> kubernetes_NewForConfig_call cfg \<in> set pre
          \<and> clientset_NewForConfig_call cfg \<in> set pre
          \<and> ndmclientset_NewForConfig_call cfg \<in> set pre
          \<and> (\<forall>x\<in>set (e # post). \<not> isClientConstruction x)"
    if split: "fst (Start w) = pre @ e # post" and e: "isFactoryCreation e" for pre e post
  proof -
    have e3: "stage e = 3" using e by (rule isFactoryCreation_stage)
    have srt: "sorted (map stage (pre @ e # post))"
      using Start_stages [of w] by (simp only: split)
    have after: "\<forall>x\<in>set (e # post). \<not> isClientConstruction x"
    proof
      fix x assume "x \<in> set (e # post)"
      with srt have "stage e \<le> stage x" by (rule later_stage)
      then show "\<not> isClientConstruction x" using e3 by (simp add: isClientConstruction_stage)
    qed
    have before: "x \<in> set pre" if "x \<in> set (fst (Start w))" and "stage x < 3" for x
      using srt that e3 by (intro earlier_stage [of pre e post x]) (simp_all add: split)
    have mem: "e \<in> set (fst (Start w))" by (simp add: split)
    have "\<exists>cfg kc oc nc.
            kubernetes_NewForConfig w cfg = Inr kc \<and> clientset_NewForConfig w cfg = Inr oc
          \<and> ndmclientset_NewForConfig w cfg = Inr nc
          \<and> kubernetes_NewForConfig_call cfg \<in> set (fst (Start w))
          \<and> clientset_NewForConfig_call cfg \<in> set (fst (Start w))
          \<and> ndmclientset_NewForConfig_call cfg \<in> set (fst (Start w))"
      using mem e3
      by (cases w rule: Start_cases)
         (auto dest: stage_getClusterConfig stage_getSyncInterval)
    then obtain cfg kc oc nc where r: "kubernetes_NewForConfig w cfg = Inr kc"
        "clientset_NewForConfig w cfg = Inr oc" "ndmclientset_NewForConfig w cfg = Inr nc"
      and m: "kubernetes_NewForConfig_call cfg \<in> set (fst (Start w))"
        "clientset_NewForConfig_call cfg \<in> set (fst (Start w))"
        "ndmclientset_NewForConfig_call cfg \<in> set (fst (Start w))"
      by blast
    have "kubernetes_NewForConfig_call cfg \<in> set pre"
      "clientset_NewForConfig_call cfg \<in> set pre"
      "ndmclientset_NewForConfig_call cfg \<in> set pre"
      using m by (simp_all add: before)
    then show ?thesis using r after by blast
  qed
  show ?thesis
  proof (intro conjI allI impI)
    fix cfg err
    assume a: "kubernetes_NewForConfig_call cfg \<in> set (fst (Start w))
        \<and> kubernetes_NewForConfig w cfg = Inl err"
    show "snd (Start w) = Some (Wrap err ''error building kubernetes clientset'')"
      using a k [of cfg err] by simp
    show "\<forall>e\<in>set (fst (Start w)). \<not> isFactoryCreation e"
      using a k [of cfg err] by simp
  next
    fix cfg err
    assume a: "clientset_NewForConfig_call cfg \<in> set (fst (Start w))
        \<and> clientset_NewForConfig w cfg = Inl err"
    show "snd (Start w) = Some (Wrap err ''error building openebs clientset'')"
      using a ob [of cfg err] by simp
    show "\<forall>e\<in>set (fst (Start w)). \<not> isFactoryCreation e"
      using a ob [of cfg err] by simp
  next
    fix cfg err
    assume a: "ndmclientset_NewForConfig_call cfg \<in> set (fst (Start w))
        \<and> ndmclientset_NewForConfig w cfg = Inl err"
    show "snd (Start w) = Some (Wrap err ''error building ndm clientset'')"
      using a n [of cfg err] by simp
    show "\<forall>e\<in>set (fst (Start w)). \<not> isFactoryCreation e"
      using a n [of cfg err] by simp
  next
    fix pre e post
    assume "fst (Start w) = pre @ e # post \<and> isFactoryCreation e"
    then show "\<exists>cfg kc oc nc.
            kubernetes_NewForConfig w cfg = Inr kc \<and> clientset_NewForConfig w cfg = Inr oc
          \<and> ndmclientset_NewForConfig w cfg = Inr nc
          \<and> kubernetes_NewForConfig_call cfg \<in> set pre
          \<and> clientset_NewForConfig_call cfg \<in> set pre
          \<and> ndmclientset_NewForConfig_call cfg \<in> set pre
          \<and> (\<forall>x\<in>set (e # post). \<not> isClientConstruction x)"
      using f [of pre e post] by simp
  qed
qed

theorem Start_client_errors_witness:
  "kubernetes_NewForConfig_call (RestConfig 0)
     \<in> set (fst (Start (exampleWorld\<lparr>kubernetes_NewForConfig := \<lambda>cfg. Inl (Error ''bad host'')\<rparr>)))
   \<and> snd (Start (exampleWorld\<lparr>kubernetes_NewForConfig := \<lambda>cfg. Inl (Error ''bad host'')\<rparr>))
       = Some (Wrap (Error ''bad host'') ''error building kubernetes clientset'')
   \<and> list_all (\<lambda>e. \<not> isFactoryCreation e)
        (fst (Start (exampleWorld\<lparr>kubernetes_NewForConfig := \<lambda>cfg. Inl (Error ''bad host'')\<rparr>)))
   \<and> clientset_NewForConfig_call (RestConfig 0)
     \<in> set (fst (Start (exampleWorld\<lparr>clientset_NewForConfig := \<lambda>cfg. Inl (Error ''bad host'')\<rparr>)))
   \<and> snd (Start (exampleWorld\<lparr>clientset_NewForConfig := \<lambda>cfg. Inl (Error ''bad host'')\<rparr>))
       = Some (Wrap (Error ''bad host'') ''error building openebs clientset'')
   \<and> list_all (\<lambda>e. \<not> isFactoryCreation e)
        (fst (Start (exampleWorld\<lparr>clientset_NewForConfig := \<lambda>cfg. Inl (Error ''bad host'')\<rparr>)))
   \<and> ndmclientset_NewForConfig_call (RestConfig 0)
     \<in> set (fst (Start (exampleWorld\<lparr>ndmclientset_NewForConfig := \<lambda>cfg. Inl (Error ''bad host'')\<rparr>)))
   \<and> snd (Start (exampleWorld\<lparr>ndmclientset_NewForConfig := \<lambda>cfg. Inl (Error ''bad host'')\<rparr>))
       = Some (Wrap (Error ''bad host'') ''error building ndm clientset'')
   \<and> list_all (\<lambda>e. \<not> isFactoryCreation e)
        (fst (Start (exampleWorld\<lparr>ndmclientset_NewForConfig := \<lambda>cfg. Inl (Error ''bad host'')\<rparr>)))
   \<and> fst (Start exampleWorld) =
        take 10 (fst (Start exampleWorld))
        @ kubeinformers_NewSharedInformerFactory_call (KubeClientset 0) (45 * Second)
        # drop 11 (fst (Start exampleWorld))
   \<and> isFactoryCreation (kubeinformers_NewSharedInformerFactory_call (KubeClientset 0) (45 * Second))
   \<and> kubernetes_NewForConfig_call (RestConfig 0) \<in> set (take 10 (fst (Start exampleWorld)))
   \<and> clientset_NewForConfig_call (RestConfig 0) \<in> set (take 10 (fst (Start exampleWorld)))
   \<and> ndmclientset_NewForConfig_call (RestConfig 0) \<in> set (take 10 (fst (Start exampleWorld)))
   \<and> list_all (\<lambda>x. \<not> isClientConstruction x) (drop 10 (fst (Start exampleWorld)))"
proof -
  let ?k = "exampleWorld\<lparr>kubernetes_NewForConfig := \<lambda>cfg. Inl (Error ''bad host'')\<rparr>"
  let ?o = "exampleWorld\<lparr>clientset_NewForConfig := \<lambda>cfg. Inl (Error ''bad host'')\<rparr>"
  let ?n = "exampleWorld\<lparr>ndmclientset_NewForConfig := \<lambda>cfg. Inl (Error ''bad host'')\<rparr>"
  have k: "Start ?k =
     ([signals_SetupSignalHandler, klog_InitFlags, flag_Set_call ''logtostderr'' ''true'',
       flag_Parse, klog_V2_Info ''Kubeconfig flag is empty'', rest_InClusterConfig_call,
       kubernetes_NewForConfig_call (RestConfig 0)],
      Some (Wrap (Error ''bad host'') ''error building kubernetes clientset''))"
    by (simp add: Start_def Let_def exampleWorld_def getClusterConfig_def)
  have ob: "Start ?o =
     ([signals_SetupSignalHandler, klog_InitFlags, flag_Set_call ''logtostderr'' ''true'',
       flag_Parse, klog_V2_Info ''Kubeconfig flag is empty'', rest_InClusterConfig_call,
       kubernetes_NewForConfig_call (RestConfig 0), clientset_NewForConfig_call (RestConfig 0)],
      Some (Wrap (Error ''bad host'') ''error building openebs clientset''))"
    by (simp add: Start_def Let_def exampleWorld_def getClusterConfig_def)
  have n: "Start ?n =
     ([signals_SetupSignalHandler, klog_InitFlags, flag_Set_call ''logtostderr'' ''true'',
       flag_Parse, klog_V2_Info ''Kubeconfig flag is empty'', rest_InClusterConfig_call,
       kubernetes_NewForConfig_call (RestConfig 0), clientset_NewForConfig_call (RestConfig 0),
       ndmclientset_NewForConfig_call (RestConfig 0)],
      Some (Wrap (Error ''bad host'') ''error building ndm clientset''))"
    by (simp add: Start_def Let_def exampleWorld_def getClusterConfig_def)
  show ?thesis
    using Start_client_errors [of ?k] Start_client_errors [of ?o] Start_client_errors [of ?n]
      Start_client_errors [of exampleWorld]
    unfolding k ob n Start_exampleWorld
    by (simp add: isFactoryCreation_def isClientConstruction_def Second_def)
qed

subsection \<open>C6: the return value on success\<close>

text \<open>
  Claim C6. On the fully successful path, that is, when \<open>Build\<close> is reached and
  returns a controller (then \<open>flag.Set\<close>, \<open>getClusterConfig\<close> and the three client
  constructions have all succeeded), the return value of \<open>Start\<close> is exactly the
  return value of \<open>controller.Run(2, stopCh)\<close> with the stop channel that
  \<open>signals.SetupSignalHandler\<close> returned, and that call is the last of the trace.
  Conversely, \<open>Build\<close> is reached whenever the configuration is resolved and the
  three clients are built.
\<close>

theorem Start_returns_Run:
  "(Build_call steps \<in> set (fst (Start w)) \<and> Build w steps = Inr controller \<longrightarrow>
     snd (Start w) = Run w controller 2 (SetupSignalHandler w)
     \<and> last (fst (Start w)) = controller_Run_call controller 2 (SetupSignalHandler w)
     \<and> flag_Set w ''logtostderr'' ''true'' = None
     \<and> (\<exists>cfg kc oc nc. snd (getClusterConfig w (kubeconfig w)) = Inr cfg
           \<and> kubernetes_NewForConfig w cfg = Inr kc \<and> clientset_NewForConfig w cfg = Inr oc
           \<and> ndmclientset_NewForConfig w cfg = Inr nc))
   \<and> (flag_Set w ''logtostderr'' ''true'' = None
        \<and> snd (getClusterConfig w (kubeconfig w)) = Inr cfg
        \<and> kubernetes_NewForConfig w cfg = Inr kc \<and> clientset_NewForConfig w cfg = Inr oc
        \<and> ndmclientset_NewForConfig w cfg = Inr nc \<longrightarrow>
      (\<exists>steps. Build_call steps \<in> set (fst (Start w))))"
proof -
  have p1: "snd (Start w) = Run w controller 2 (SetupSignalHandler w)
     \<and> last (fst (Start w)) = controller_Run_call controller 2 (SetupSignalHandler w)
     \<and> flag_Set w ''logtostderr'' ''true'' = None
     \<and> (\<exists>cfg kc oc nc. snd (getClusterConfig w (kubeconfig w)) = Inr cfg
           \<and> kubernetes_NewForConfig w cfg = Inr kc \<and> clientset_NewForConfig w cfg = Inr oc
           \<and> ndmclientset_NewForConfig w cfg = Inr nc)"
    if "Build_call steps \<in> set (fst (Start w)) \<and> Build w steps = Inr controller"
    using that
    by (cases w rule: Start_cases)
       (auto dest: stage_getClusterConfig stage_getSyncInterval)
  have p2: "\<exists>steps. Build_call steps \<in> set (fst (Start w))"
    if "flag_Set w ''logtostderr'' ''true'' = None
        \<and> snd (getClusterConfig w (kubeconfig w)) = Inr cfg
        \<and> kubernetes_NewForConfig w cfg = Inr kc \<and> clientset_NewForConfig w cfg = Inr oc
        \<and> ndmclientset_NewForConfig w cfg = Inr nc"
    using that by (cases w rule: Start_cases) auto
  show ?thesis
    by (rule conjI; rule impI) (rule p1, assumption, rule p2, assumption)
qed

theorem Start_returns_Run_witness:
  "Build_call [withKubeClient (KubeClientset 0), withOpenEBSClient (OpenEBSClientset 0),
         withNDMClient (NDMClientset 0), withCSPCSynced (SPCInformerFactory 0),
         withCSPCLister (SPCInformerFactory 0), withRecorder (KubeClientset 0),
         withEventHandler (SPCInformerFactory 0), withWorkqueueRateLimiting]
     \<in> set (fst (Start (exampleWorld\<lparr>Run := \<lambda>c workers ch. Some (Error ''cache sync failed'')\<rparr>)))
   \<and> Build (exampleWorld\<lparr>Run := \<lambda>c workers ch. Some (Error ''cache sync failed'')\<rparr>)
        [withKubeClient (KubeClientset 0), withOpenEBSClient (OpenEBSClientset 0),
         withNDMClient (NDMClientset 0), withCSPCSynced (SPCInformerFactory 0),
         withCSPCLister (SPCInformerFactory 0), withRecorder (KubeClientset 0),
         withEventHandler (SPCInformerFactory 0), withWorkqueueRateLimiting]
       = Inr (Controller 0)
   \<and> snd (Start (exampleWorld\<lparr>Run := \<lambda>c workers ch. Some (Error ''cache sync failed'')\<rparr>))
       = Some (Error ''cache sync failed'')
   \<and> last (fst (Start (exampleWorld\<lparr>Run := \<lambda>c workers ch. Some (Error ''cache sync failed'')\<rparr>)))
       = controller_Run_call (Controller 0) 2 (StopCh 0)
   \<and> flag_Set exampleWorld ''logtostderr'' ''true'' = None
   \<and> snd (getClusterConfig exampleWorld (kubeconfig exampleWorld)) = Inr (RestConfig 0)
   \<and> kubernetes_NewForConfig exampleWorld (RestConfig 0) = Inr (KubeClientset 0)
   \<and> clientset_NewForConfig exampleWorld (RestConfig 0) = Inr (OpenEBSClientset 0)
   \<and> ndmclientset_NewForConfig exampleWorld (RestConfig 0) = Inr (NDMClientset 0)
   \<and> snd (Start exampleWorld) = None"
proof -
  let ?w = "exampleWorld\<lparr>Run := \<lambda>c workers ch. Some (Error ''cache sync failed'')\<rparr>"
  let ?steps = "[withKubeClient (KubeClientset 0), withOpenEBSClient (OpenEBSClientset 0),
         withNDMClient (NDMClientset 0), withCSPCSynced (SPCInformerFactory 0),
         withCSPCLister (SPCInformerFactory 0), withRecorder (KubeClientset 0),
         withEventHandler (SPCInformerFactory 0), withWorkqueueRateLimiting]"
  have t: "fst (Start ?w) = fst (Start exampleWorld)"
    by (simp add: Start_def Let_def split_beta exampleWorld_def getClusterConfig_def)
  have b: "Build_call ?steps \<in> set (fst (Start ?w))"
    unfolding t by (simp add: Start_exampleWorld)
  have c: "Build ?w ?steps = Inr (Controller 0)" by (simp add: exampleWorld_def)
  have r: "Run ?w (Controller 0) 2 (SetupSignalHandler ?w) = Some (Error ''cache sync failed'')"
    "SetupSignalHandler ?w = StopCh 0"
    by (simp_all add: exampleWorld_def)
  show ?thesis
    using b c r
      Start_returns_Run [where steps = ?steps and w = ?w and controller = "Controller 0"
        and cfg = "RestConfig 0" and kc = "KubeClientset 0" and oc = "OpenEBSClientset 0"
        and nc = "NDMClientset 0"]
    by (simp add: Start_exampleWorld) (simp add: exampleWorld_def getClusterConfig_def)
qed

subsection \<open>C7: negative intervals\<close>

text \<open>
  Claim C7, as amended. Negative values are not special-cased: on a platform whose
  \<open>int\<close> is 32 or 64 bits wide, when \<open>RESYNC_INTERVAL\<close> is a decimal numeral of
  a negative integer \<open>N\<close> that fits \<open>int\<close> and \<open>- 9223372036 \<le> N\<close>,
  \<open>getSyncInterval\<close> returns a duration of \<open>N\<close> seconds, without a warning, and
  that is not the 30-second default. Below the bound the \<open>int64\<close> product wraps
  around, and it can even land on the default: \<open>-36028797018963938\<close> seconds are
  \<open>30 * 10^9 - 2^64 * 5^9\<close> nanoseconds.
\<close>

theorem getSyncInterval_negative:
  assumes "validIntSize intSize"
    and "decimal (Getenv env ''RESYNC_INTERVAL'') = Some N"
    and "N < 0" and "- (2 ^ (intSize - 1)) \<le> N" and "- 9223372036 \<le> N"
  shows "\<exists>d. getSyncInterval intSize env = ([os_Getenv ''RESYNC_INTERVAL''], d)
             \<and> isSeconds d N \<and> d \<noteq> ResyncInterval"
proof -
  have "Atoi intSize (Getenv env ''RESYNC_INTERVAL'') = (N, None)"
    using Atoi_decimal [OF assms(1,2)] assms(3,4) by simp
  then have g: "getSyncInterval intSize env =
      ([os_Getenv ''RESYNC_INTERVAL''], word_of_int N * Second)"
    using assms(3) by (simp add: getSyncInterval_Atoi)
  have s: "isSeconds (word_of_int N * Second) N" using assms(3,5) by (simp add: isSeconds_iff)
  have "word_of_int N * Second \<noteq> ResyncInterval"
  proof
    assume "word_of_int N * Second = ResyncInterval"
    then have "isSeconds ResyncInterval N" using s by simp
    then show False using isSeconds_ResyncInterval assms(3) by (simp add: isSeconds_def)
  qed
  then show ?thesis using g s by blast
qed

theorem getSyncInterval_negative_witness:
  "validIntSize 64 \<and> decimal ''-5'' = Some (- 5)
   \<and> getSyncInterval 64 [''RESYNC_INTERVAL'' \<mapsto> ''-5''] =
        ([os_Getenv ''RESYNC_INTERVAL''], - 5000000000)
   \<and> isSeconds (- 5000000000) (- 5) \<and> (- 5000000000 :: Duration) \<noteq> ResyncInterval"
proof -
  have v: "validIntSize 64" by (simp add: validIntSize_def)
  have d: "decimal (Getenv [''RESYNC_INTERVAL'' \<mapsto> ''-5''] ''RESYNC_INTERVAL'') = Some (- 5)"
    by (simp add: Getenv_def decimal_def isDigits_def isDigit_def digitVal_def)
  have g: "getSyncInterval 64 [''RESYNC_INTERVAL'' \<mapsto> ''-5''] =
        ([os_Getenv ''RESYNC_INTERVAL''], - 5000000000)"
    by (simp add: getSyncInterval_def Getenv_def Atoi_eval Second_def)
  show ?thesis
    using v d getSyncInterval_negative [OF v d] unfolding g
    by (simp add: Getenv_def)
qed

theorem getSyncInterval_negative_counterexample:
  "decimal ''-36028797018963938'' = Some (- 36028797018963938)
   \<and> Atoi 64 ''-36028797018963938'' = (- 36028797018963938, None)
   \<and> getSyncInterval 64 [''RESYNC_INTERVAL'' \<mapsto> ''-36028797018963938''] =
        ([os_Getenv ''RESYNC_INTERVAL''], ResyncInterval)
   \<and> \<not> isSeconds ResyncInterval (- 36028797018963938)"
  by (simp add: getSyncInterval_def Getenv_def Atoi_eval Second_def ResyncInterval_def
      isSeconds_def decimal_def isDigits_def)

subsection \<open>C8: \<open>getSyncInterval\<close> always returns\<close>

text \<open>
  Claim C8. \<open>getSyncInterval\<close> is total: whatever the environment holds for
  \<open>RESYNC_INTERVAL\<close> and whatever the width of \<open>int\<close>, the call returns a
  duration, in one of two ways: \<open>Atoi\<close> accepted the string with a value other than
  zero and the duration is that value times \<open>time.Second\<close>, or a warning is logged
  and the duration is the default. \<open>Atoi\<close> reports a bad string as an error value,
  which the function checks, and the \<open>int64\<close> product wraps around, so nothing in
  the body can fail.
\<close>

theorem getSyncInterval_total:
  "(\<exists>n. n \<noteq> 0 \<and> Atoi intSize (Getenv env ''RESYNC_INTERVAL'') = (n, None)
        \<and> getSyncInterval intSize env = ([os_Getenv ''RESYNC_INTERVAL''], word_of_int n * Second))
   \<or> (\<exists>v. getSyncInterval intSize env =
          ([os_Getenv ''RESYNC_INTERVAL'', klog_Warningf v ResyncInterval], ResyncInterval))"
  by (cases "Atoi intSize (Getenv env ''RESYNC_INTERVAL'')")
     (auto simp: getSyncInterval_def)

theorem getSyncInterval_total_witness:
  "getSyncInterval 64 [''RESYNC_INTERVAL'' \<mapsto> ''99999999999999999999''] =
     ([os_Getenv ''RESYNC_INTERVAL'', klog_Warningf 9223372036854775807 ResyncInterval],
      ResyncInterval)
   \<and> getSyncInterval 32 [''RESYNC_INTERVAL'' \<mapsto> ''-7''] =
     ([os_Getenv ''RESYNC_INTERVAL''], - 7 * Second)
   \<and> getSyncInterval 64 [''RESYNC_INTERVAL'' \<mapsto> ''''] =
     ([os_Getenv ''RESYNC_INTERVAL'', klog_Warningf 0 ResyncInterval], ResyncInterval)"
  using getSyncInterval_total [of 64 "[''RESYNC_INTERVAL'' \<mapsto> ''99999999999999999999'']"]
    getSyncInterval_total [of 32 "[''RESYNC_INTERVAL'' \<mapsto> ''-7'']"]
    getSyncInterval_total [of 64 "[''RESYNC_INTERVAL'' \<mapsto> '''']"]
  by (simp add: getSyncInterval_def Getenv_def Atoi_eval Second_def)

subsection \<open>C9: one stop channel\<close>

text \<open>
  Claim C9. Every run of \<open>Start\<close> calls \<open>signals.SetupSignalHandler\<close> exactly
  once, and the stop channel it returned is the one handed to
  \<open>kubeInformerFactory.Start\<close>, to \<open>spcInformerFactory.Start\<close> and to
  \<open>controller.Run\<close>, wherever the trace has one of these.
\<close>

theorem Start_single_stop_channel:
  "count_list (fst (Start w)) signals_SetupSignalHandler = 1
   \<and> (\<forall>f ch. go_kubeInformerFactory_Start f ch \<in> set (fst (Start w)) \<longrightarrow> ch = SetupSignalHandler w)
   \<and> (\<forall>f ch. go_spcInformerFactory_Start f ch \<in> set (fst (Start w)) \<longrightarrow> ch = SetupSignalHandler w)
   \<and> (\<forall>c n ch. controller_Run_call c n ch \<in> set (fst (Start w)) \<longrightarrow> ch = SetupSignalHandler w)"
proof -
  have c: "count_list (fst (getClusterConfig w (kubeconfig w))) signals_SetupSignalHandler = 0"
    by (simp add: notin_getClusterConfig)
  have g: "count_list (fst (getSyncInterval (IntSize w) (environ w n))) signals_SetupSignalHandler = 0"
    for n by (simp add: notin_getSyncInterval)
  show ?thesis
    by (cases w rule: Start_cases)
       (use c g in \<open>auto dest: stage_getClusterConfig stage_getSyncInterval\<close>)
qed

theorem Start_single_stop_channel_witness:
  "count_list (fst (Start exampleWorld)) signals_SetupSignalHandler = 1
   \<and> SetupSignalHandler exampleWorld = StopCh 0
   \<and> go_kubeInformerFactory_Start (KubeInformerFactory 0) (StopCh 0) \<in> set (fst (Start exampleWorld))
   \<and> go_spcInformerFactory_Start (SPCInformerFactory 0) (StopCh 0) \<in> set (fst (Start exampleWorld))
   \<and> controller_Run_call (Controller 0) 2 (StopCh 0) \<in> set (fst (Start exampleWorld))
   \<and> go_kubeInformerFactory_Start (KubeInformerFactory 0) (StopCh 1) \<notin> set (fst (Start exampleWorld))"
  using Start_single_stop_channel [of exampleWorld]
  by (simp add: Start_exampleWorld) (simp add: exampleWorld_def)

subsection \<open>C10: the same interval for both factories\<close>

text \<open>
  Claim C10. \<open>getSyncInterval\<close> depends on the environment only through what
  \<open>os.Getenv("RESYNC_INTERVAL")\<close> reads: two environments with the same reading
  give the same duration and the same log entries. Hence, when the two calls that
  \<open>Start\<close> makes read the same value, the durations passed to the two informer
  factory constructors are equal.
\<close>

theorem getSyncInterval_deterministic:
  "(Getenv env1 ''RESYNC_INTERVAL'' = Getenv env2 ''RESYNC_INTERVAL'' \<longrightarrow>
      getSyncInterval intSize env1 = getSyncInterval intSize env2)
   \<and> (Getenv (environ w 0) ''RESYNC_INTERVAL'' = Getenv (environ w 1) ''RESYNC_INTERVAL'' \<longrightarrow>
        (\<forall>kc oc d1 d2.
            kubeinformers_NewSharedInformerFactory_call kc d1 \<in> set (fst (Start w))
          \<and> informers_NewSharedInformerFactory_call oc d2 \<in> set (fst (Start w))
          \<longrightarrow> d1 = d2))"
proof -
  have det: "getSyncInterval sz e1 = getSyncInterval sz e2"
    if "Getenv e1 ''RESYNC_INTERVAL'' = Getenv e2 ''RESYNC_INTERVAL''" for sz e1 e2
    using that by (simp add: getSyncInterval_def)
  have st: "d1 = d2"
    if "Getenv (environ w 0) ''RESYNC_INTERVAL'' = Getenv (environ w 1) ''RESYNC_INTERVAL''"
      and "kubeinformers_NewSharedInformerFactory_call kc d1 \<in> set (fst (Start w))"
      and "informers_NewSharedInformerFactory_call oc d2 \<in> set (fst (Start w))"
    for kc oc d1 d2
    using that(2,3) det [OF that(1), of "IntSize w"]
    by (cases w rule: Start_cases)
       (auto dest: getClusterConfig_trace getSyncInterval_trace)
  show ?thesis using det st by blast
qed

theorem getSyncInterval_deterministic_witness:
  "Getenv Map.empty ''RESYNC_INTERVAL'' = Getenv [''RESYNC_INTERVAL'' \<mapsto> []] ''RESYNC_INTERVAL''
   \<and> getSyncInterval 64 Map.empty = getSyncInterval 64 [''RESYNC_INTERVAL'' \<mapsto> []]
   \<and> Getenv (environ exampleWorld 0) ''RESYNC_INTERVAL'' = Getenv (environ exampleWorld 1) ''RESYNC_INTERVAL''
   \<and> kubeinformers_NewSharedInformerFactory_call (KubeClientset 0) (45 * Second)
        \<in> set (fst (Start exampleWorld))
   \<and> informers_NewSharedInformerFactory_call (OpenEBSClientset 0) (45 * Second)
        \<in> set (fst (Start exampleWorld))"
proof -
  have e: "Getenv Map.empty ''RESYNC_INTERVAL'' = Getenv [''RESYNC_INTERVAL'' \<mapsto> []] ''RESYNC_INTERVAL''"
    by (simp add: Getenv_def)
  have x: "Getenv (environ exampleWorld 0) ''RESYNC_INTERVAL'' = Getenv (environ exampleWorld 1) ''RESYNC_INTERVAL''"
    by (simp add: exampleWorld_def)
  show ?thesis
    using e x getSyncInterval_deterministic [of Map.empty "[''RESYNC_INTERVAL'' \<mapsto> []]" 64 exampleWorld]
    by (simp add: Start_exampleWorld Second_def)
qed

end
